theory Spec2Isabelle
  imports Complex_Main "HOL-Library.Stream" "HOL-Library.Sublist"
begin

section \<open>Numbers and randomness\<close>

text \<open>
  A TypeScript \<^verbatim>\<open>number\<close> is modelled as a real: arithmetic is exact, and the rounding of
  IEEE doubles is not part of the model. Where the source tests for NaN or infinity
  (\<^verbatim>\<open>Number.isFinite\<close>, \<^verbatim>\<open>Number.isInteger\<close>) the argument is a \<open>jsnum\<close>, which has
  these values beside the finite ones.

  \<^verbatim>\<open>Math.random()\<close> reads the next element of a stream of reals; every function that calls it
  takes the stream and returns the rest of it.
\<close>

datatype jsnum = Finite real | NaN | PosInfinity | NegInfinity

type_synonym rng = "real stream"

definition random :: "rng \<Rightarrow> real \<times> rng" where
  "random r = (shd r, stl r)"


text \<open>\<^verbatim>\<open>Math.round\<close>: the nearest integer, halves towards plus infinity.\<close>

definition Math_round :: "real \<Rightarrow> int" where
  "Math_round v = \<lfloor>v + 1 / 2\<rfloor>"

subsection \<open>math.ts\<close>

definition clamp :: "real \<Rightarrow> real \<Rightarrow> real \<Rightarrow> real" where
  "clamp value mn mx = max mn (min mx value)"

definition lerp :: "real \<Rightarrow> real \<Rightarrow> real \<Rightarrow> real" where
  "lerp a b t = a + (b - a) * t"

definition damp :: "real \<Rightarrow> real \<Rightarrow> real \<Rightarrow> real \<Rightarrow> real" where
  "damp current target lambda dt =
     (if dt \<le> 0 then current else lerp current target (1 - exp (- lambda * dt)))"

definition randRange :: "real \<Rightarrow> real \<Rightarrow> rng \<Rightarrow> real \<times> rng" where
  "randRange mn mx r = (case random r of (u, r') \<Rightarrow> (mn + u * (mx - mn), r'))"

definition randInt :: "real \<Rightarrow> real \<Rightarrow> rng \<Rightarrow> int \<times> rng" where
  "randInt minInclusive maxInclusive r =
     (case randRange minInclusive (maxInclusive + 1) r of (v, r') \<Rightarrow> (\<lfloor>v\<rfloor>, r'))"

subsection \<open>The three.js functions the game calls\<close>

text \<open>
  three.js is a library, not part of the repository. The functions below are the ones the
  game's simulation calls, written as three.js defines them: \<^verbatim>\<open>MathUtils.lerp(x, y, t)\<close> is
  \<^verbatim>\<open>(1 - t) * x + t * y\<close>, \<^verbatim>\<open>Vector3.normalize()\<close> is \<^verbatim>\<open>divideScalar(length() || 1)\<close>, and
  \<^verbatim>\<open>Vector3.lerp(v, alpha)\<close> adds \<^verbatim>\<open>(v - this) * alpha\<close> per component.
\<close>

definition MathUtils_lerp :: "real \<Rightarrow> real \<Rightarrow> real \<Rightarrow> real" where
  "MathUtils_lerp x y t = (1 - t) * x + t * y"

record Vector3 =
  vx :: real
  vy :: real
  vz :: real

definition vec3 :: "real \<Rightarrow> real \<Rightarrow> real \<Rightarrow> Vector3" where
  "vec3 a b c = \<lparr>vx = a, vy = b, vz = c\<rparr>"







definition v_addScaledVector :: "Vector3 \<Rightarrow> Vector3 \<Rightarrow> real \<Rightarrow> Vector3" where
  "v_addScaledVector a v s = vec3 (vx a + vx v * s) (vy a + vy v * s) (vz a + vz v * s)"

section \<open>levels.ts\<close>

datatype Environment =
  EarthPark | EarthParkSlalom | City | Coast | Desert | Military | UpperAtmos | Orbit | Alien | War

record LevelBossConfig =
  boss_hp :: real
  spawnAtScore :: real
  ufoSupportRate :: real

record LevelConfig =
  level_id :: real
  name :: string
  environment :: Environment
  autoForward :: bool
  baseSpeed :: real
  maxSpeed :: real
  accelPerSec :: real
  boostMultiplier :: real
  windForce :: real
  obstacleDensity :: real
  asteroidCount :: real
  pickupRate :: real
  enemyRate :: real
  ufoRate :: real
  pickupScore :: real
  enemyScoreMin :: real
  enemyScoreMax :: real
  boss :: "LevelBossConfig option"

definition level1 :: LevelConfig where
  "level1 = \<lparr>level_id = 1, name = ''NYC Park Tutorial'', environment = EarthPark,
     autoForward = False, baseSpeed = 0, maxSpeed = 6, accelPerSec = 12 / 10,
     boostMultiplier = 16 / 10, windForce = 5 / 100, obstacleDensity = 35 / 100,
     asteroidCount = 0, pickupRate = 25 / 100, enemyRate = 0, ufoRate = 0, pickupScore = 1,
     enemyScoreMin = 5, enemyScoreMax = 10, boss = None\<rparr>"

definition level2 :: LevelConfig where
  "level2 = \<lparr>level_id = 2, name = ''Park Slalom'', environment = EarthParkSlalom,
     autoForward = False, baseSpeed = 5 / 10, maxSpeed = 7, accelPerSec = 14 / 10,
     boostMultiplier = 17 / 10, windForce = 8 / 100, obstacleDensity = 55 / 100,
     asteroidCount = 0, pickupRate = 45 / 100, enemyRate = 0, ufoRate = 0, pickupScore = 1,
     enemyScoreMin = 5, enemyScoreMax = 10, boss = None\<rparr>"

definition level3 :: LevelConfig where
  "level3 = \<lparr>level_id = 3, name = ''City Flight'', environment = City,
     autoForward = True, baseSpeed = 12 / 10, maxSpeed = 9, accelPerSec = 18 / 10,
     boostMultiplier = 17 / 10, windForce = 1 / 10, obstacleDensity = 65 / 100,
     asteroidCount = 0, pickupRate = 55 / 100, enemyRate = 1 / 10, ufoRate = 0, pickupScore = 1,
     enemyScoreMin = 5, enemyScoreMax = 10, boss = None\<rparr>"

definition level4 :: LevelConfig where
  "level4 = \<lparr>level_id = 4, name = ''Coast Wind Run'', environment = Coast,
     autoForward = True, baseSpeed = 18 / 10, maxSpeed = 10, accelPerSec = 2,
     boostMultiplier = 18 / 10, windForce = 22 / 100, obstacleDensity = 45 / 100,
     asteroidCount = 0, pickupRate = 6 / 10, enemyRate = 18 / 100, ufoRate = 0, pickupScore = 1,
     enemyScoreMin = 5, enemyScoreMax = 10, boss = None\<rparr>"

definition level5 :: LevelConfig where
  "level5 = \<lparr>level_id = 5, name = ''Desert Canyon'', environment = Desert,
     autoForward = True, baseSpeed = 22 / 10, maxSpeed = 11, accelPerSec = 22 / 10,
     boostMultiplier = 19 / 10, windForce = 12 / 100, obstacleDensity = 7 / 10,
     asteroidCount = 0, pickupRate = 65 / 100, enemyRate = 28 / 100, ufoRate = 0, pickupScore = 1,
     enemyScoreMin = 5, enemyScoreMax = 10, boss = None\<rparr>"

definition level6 :: LevelConfig where
  "level6 = \<lparr>level_id = 6, name = ''Military Base Combat'', environment = Military,
     autoForward = True, baseSpeed = 26 / 10, maxSpeed = 12, accelPerSec = 24 / 10,
     boostMultiplier = 2, windForce = 1 / 10, obstacleDensity = 55 / 100,
     asteroidCount = 0, pickupRate = 6 / 10, enemyRate = 5 / 10, ufoRate = 5 / 100,
     pickupScore = 1, enemyScoreMin = 6, enemyScoreMax = 10, boss = None\<rparr>"

definition level7 :: LevelConfig where
  "level7 = \<lparr>level_id = 7, name = ''Upper Atmosphere'', environment = UpperAtmos,
     autoForward = True, baseSpeed = 3, maxSpeed = 13, accelPerSec = 26 / 10,
     boostMultiplier = 21 / 10, windForce = 8 / 100, obstacleDensity = 35 / 100,
     asteroidCount = 10, pickupRate = 65 / 100, enemyRate = 55 / 100, ufoRate = 12 / 100,
     pickupScore = 1, enemyScoreMin = 6, enemyScoreMax = 10, boss = None\<rparr>"

definition level8 :: LevelConfig where
  "level8 = \<lparr>level_id = 8, name = ''Orbit Debris Field'', environment = Orbit,
     autoForward = True, baseSpeed = 34 / 10, maxSpeed = 14, accelPerSec = 28 / 10,
     boostMultiplier = 21 / 10, windForce = 6 / 100, obstacleDensity = 2 / 10,
     asteroidCount = 60, pickupRate = 7 / 10, enemyRate = 62 / 100, ufoRate = 18 / 100,
     pickupScore = 1, enemyScoreMin = 6, enemyScoreMax = 10, boss = None\<rparr>"

definition level9 :: LevelConfig where
  "level9 = \<lparr>level_id = 9, name = ''Alien Zone'', environment = Alien,
     autoForward = True, baseSpeed = 38 / 10, maxSpeed = 15, accelPerSec = 3,
     boostMultiplier = 22 / 10, windForce = 4 / 100, obstacleDensity = 18 / 100,
     asteroidCount = 80, pickupRate = 75 / 100, enemyRate = 78 / 100, ufoRate = 35 / 100,
     pickupScore = 1, enemyScoreMin = 7, enemyScoreMax = 10, boss = None\<rparr>"

definition level10 :: LevelConfig where
  "level10 = \<lparr>level_id = 10, name = ''Space War (Boss)'', environment = War,
     autoForward = True, baseSpeed = 42 / 10, maxSpeed = 16, accelPerSec = 32 / 10,
     boostMultiplier = 23 / 10, windForce = 3 / 100, obstacleDensity = 15 / 100,
     asteroidCount = 100, pickupRate = 8 / 10, enemyRate = 95 / 100, ufoRate = 5 / 10,
     pickupScore = 1, enemyScoreMin = 8, enemyScoreMax = 12,
     boss = Some \<lparr>boss_hp = 220, spawnAtScore = 90, ufoSupportRate = 65 / 100\<rparr>\<rparr>"

definition LEVELS :: "LevelConfig list" where
  "LEVELS = [level1, level2, level3, level4, level5, level6, level7, level8, level9, level10]"

definition DEFAULT_LEVEL_ID :: int where
  "DEFAULT_LEVEL_ID = 8"

definition isFinite :: "jsnum \<Rightarrow> bool" where
  "isFinite n = (case n of Finite _ \<Rightarrow> True | _ \<Rightarrow> False)"

definition isInteger :: "jsnum \<Rightarrow> bool" where
  "isInteger n = (case n of Finite v \<Rightarrow> of_int \<lfloor>v\<rfloor> = v | _ \<Rightarrow> False)"

definition isValidLevelId :: "jsnum \<Rightarrow> bool" where
  "isValidLevelId levelId =
     (case levelId of
        Finite v \<Rightarrow> isInteger levelId \<and> v \<ge> 1 \<and> v \<le> of_nat (length LEVELS)
      | _ \<Rightarrow> False)"

text \<open>
  The fallback index \<^verbatim>\<open>Math.max(0, Math.min(LEVELS.length - 1, DEFAULT_LEVEL_ID - 1))\<close> is
  within the table, so the read \<open>LEVELS ! 7\<close> is a read of an element.
  \<^verbatim>\<open>l.id === levelId\<close> on a finite number is equality of the values.
\<close>

definition fallbackLevel :: LevelConfig where
  "fallbackLevel = LEVELS ! nat (max 0 (min (int (length LEVELS) - 1) (DEFAULT_LEVEL_ID - 1)))"

definition getLevelConfig :: "jsnum \<Rightarrow> LevelConfig" where
  "getLevelConfig levelId =
     (if \<not> isFinite levelId then fallbackLevel
      else case levelId of
        Finite v \<Rightarrow> (case List.find (\<lambda>l. level_id l = v) LEVELS of
                       Some l \<Rightarrow> l | None \<Rightarrow> fallbackLevel)
      | _ \<Rightarrow> fallbackLevel)"

section \<open>input/InputState.ts\<close>

datatype ControlMode = Mouth | Keyboard

datatype FlipAxis = AxisX | AxisZ

record FlipCommand =
  axis :: FlipAxis
  dir :: int

record InputState =
  mode :: ControlMode
  moveX :: real
  moveY :: real
  boost :: real
  stop :: bool
  fireGuns :: bool
  fireGunsBurst :: bool
  fireMissile :: bool
  flip :: "FlipCommand option"
  hasCamera :: bool

definition createDefaultInputState :: InputState where
  "createDefaultInputState =
     \<lparr>mode = Keyboard, moveX = 0, moveY = 0, boost = 0, stop = False, fireGuns = False,
      fireGunsBurst = False, fireMissile = False, flip = None, hasCamera = False\<rparr>"

section \<open>input/InputRouter.ts\<close>

text \<open>
  The face tracker's output (\<^verbatim>\<open>FaceControls\<close>) and the voice recogniser's commands
  (\<^verbatim>\<open>VoiceCommand\<close>) come from outside; the router reads them. \<^verbatim>\<open>performance.now()\<close> is
  the argument \<open>now\<close> of the functions that read the clock. The pause callback
  \<^verbatim>\<open>onTogglePause\<close> is injected by the caller and leaves the router as it is.
\<close>

record FaceControls =
  calibrated :: bool
  strafeX :: real
  strafeY :: real
  face_boost :: real
  mouthOpen :: real
  fireBurst :: bool
  fireHold :: bool

datatype VoiceCommand =
  VFireGuns | VFireMissile | VStop | VTogglePause
  | VNudge real real jsnum
  | VFlip FlipAxis int

record ManualNudge =
  nudge_x :: real
  nudge_y :: real
  untilMs :: real

record Keys =
  key_left :: bool
  key_right :: bool
  key_up :: bool
  key_down :: bool
  key_boost :: bool
  key_fire :: bool
  key_stop :: bool

record InputRouter =
  state :: InputState
  router_hasCamera :: bool
  keys :: Keys
  manualNudge :: "ManualNudge option"
  stopHeld :: bool
  stopToggled :: bool
  queuedGunBurst :: bool
  queuedMissile :: bool
  queuedFlip :: "FlipCommand option"
  lastVoiceFireMs :: real
  lastVoiceMissileMs :: real
  lastVoiceStopMs :: real

definition noKeys :: Keys where
  "noKeys = \<lparr>key_left = False, key_right = False, key_up = False, key_down = False,
     key_boost = False, key_fire = False, key_stop = False\<rparr>"

definition InputRouter_new :: InputRouter where
  "InputRouter_new =
     \<lparr>state = createDefaultInputState, router_hasCamera = False, keys = noKeys,
      manualNudge = None, stopHeld = False, stopToggled = False, queuedGunBurst = False,
      queuedMissile = False, queuedFlip = None, lastVoiceFireMs = 0, lastVoiceMissileMs = 0,
      lastVoiceStopMs = 0\<rparr>"

definition InputRouter_reset :: "InputRouter \<Rightarrow> InputRouter" where
  "InputRouter_reset r =
     r\<lparr>manualNudge := None, stopHeld := False, stopToggled := False, queuedGunBurst := False,
       queuedMissile := False, queuedFlip := None, keys := noKeys, lastVoiceFireMs := 0,
       lastVoiceMissileMs := 0, lastVoiceStopMs := 0, state := createDefaultInputState\<rparr>"

definition InputRouter_setHasCamera :: "bool \<Rightarrow> InputRouter \<Rightarrow> InputRouter" where
  "InputRouter_setHasCamera b r = r\<lparr>router_hasCamera := b\<rparr>"

definition InputRouter_setStopHeld :: "bool \<Rightarrow> InputRouter \<Rightarrow> InputRouter" where
  "InputRouter_setStopHeld held r = r\<lparr>stopHeld := held\<rparr>"

definition InputRouter_toggleStop :: "InputRouter \<Rightarrow> InputRouter" where
  "InputRouter_toggleStop r = r\<lparr>stopToggled := \<not> stopToggled r, manualNudge := None\<rparr>"

definition InputRouter_nudge :: "real \<Rightarrow> real \<Rightarrow> jsnum \<Rightarrow> real \<Rightarrow> InputRouter \<Rightarrow> InputRouter" where
  "InputRouter_nudge x y durationMs now r =
     (let ms = (case durationMs of Finite d \<Rightarrow> d | _ \<Rightarrow> 700)
      in r\<lparr>manualNudge :=
            Some \<lparr>nudge_x = clamp x (-1) 1, nudge_y = clamp y (-1) 1, untilMs = now + ms\<rparr>\<rparr>)"

definition InputRouter_queueGunBurst :: "InputRouter \<Rightarrow> InputRouter" where
  "InputRouter_queueGunBurst r = r\<lparr>queuedGunBurst := True\<rparr>"

definition InputRouter_queueMissile :: "InputRouter \<Rightarrow> InputRouter" where
  "InputRouter_queueMissile r = r\<lparr>queuedMissile := True\<rparr>"

definition InputRouter_queueFlip :: "FlipAxis \<Rightarrow> int \<Rightarrow> InputRouter \<Rightarrow> InputRouter" where
  "InputRouter_queueFlip a d r = r\<lparr>queuedFlip := Some \<lparr>axis = a, dir = d\<rparr>\<rparr>"

fun InputRouter_handleVoiceCommand :: "VoiceCommand \<Rightarrow> real \<Rightarrow> InputRouter \<Rightarrow> InputRouter" where
  "InputRouter_handleVoiceCommand VFireGuns now r =
     (if now - lastVoiceFireMs r < 450 then r
      else InputRouter_queueGunBurst (r\<lparr>lastVoiceFireMs := now\<rparr>))"
| "InputRouter_handleVoiceCommand VFireMissile now r =
     (if now - lastVoiceMissileMs r < 700 then r
      else InputRouter_queueMissile (r\<lparr>lastVoiceMissileMs := now\<rparr>))"
| "InputRouter_handleVoiceCommand VStop now r =
     (if now - lastVoiceStopMs r < 650 then r
      else InputRouter_toggleStop (r\<lparr>lastVoiceStopMs := now\<rparr>))"
| "InputRouter_handleVoiceCommand (VNudge x y durationMs) now r =
     InputRouter_nudge x y durationMs now r"
| "InputRouter_handleVoiceCommand (VFlip a d) now r = InputRouter_queueFlip a d r"
| "InputRouter_handleVoiceCommand VTogglePause now r = r"

definition keyAxis :: "bool \<Rightarrow> bool \<Rightarrow> real" where
  "keyAxis pos neg = (if pos then 1 else 0) - (if neg then 1 else 0)"

definition InputRouter_update :: "real \<Rightarrow> FaceControls \<Rightarrow> InputRouter \<Rightarrow> InputRouter" where
  "InputRouter_update nowMs face r =
     (let hasMouth = calibrated face;
          md = (if hasMouth then Mouth else Keyboard);
          moveX0 = (if hasMouth then strafeX face else 0);
          moveY0 = (if hasMouth then strafeY face else 0);
          manual = manualNudge r;
          active = (case manual of Some m \<Rightarrow> untilMs m > nowMs | None \<Rightarrow> False);
          moveX1 = (case manual of Some m \<Rightarrow> if active then nudge_x m else moveX0 | None \<Rightarrow> moveX0);
          moveY1 = (case manual of Some m \<Rightarrow> if active then nudge_y m else moveY0 | None \<Rightarrow> moveY0);
          manual' = (if active then manual else None);
          keyX = keyAxis (key_right (keys r)) (key_left (keys r));
          keyY = keyAxis (key_up (keys r)) (key_down (keys r));
          moveX2 = (if keyX \<noteq> 0 \<or> keyY \<noteq> 0 then clamp (moveX1 + keyX) (-1) 1 else moveX1);
          moveY2 = (if keyX \<noteq> 0 \<or> keyY \<noteq> 0 then clamp (moveY1 + keyY) (-1) 1 else moveY1);
          bst = clamp ((if hasMouth then face_boost face else 0)
                       + (if key_boost (keys r) then 1 else 0)) 0 1;
          stp = (stopHeld r \<or> stopToggled r \<or> key_stop (keys r));
          fg = ((hasMouth \<and> fireHold face) \<or> key_fire (keys r));
          fgb = ((hasMouth \<and> fireBurst face) \<or> queuedGunBurst r);
          fm = queuedMissile r;
          fl = queuedFlip r
      in r\<lparr>manualNudge := manual',
           state := (state r)\<lparr>mode := md, moveX := moveX2, moveY := moveY2, boost := bst,
                      stop := stp, fireGuns := fg, fireGunsBurst := fgb, fireMissile := fm,
                      flip := fl, hasCamera := (router_hasCamera r \<or> hasMouth)\<rparr>,
           queuedGunBurst := False, queuedMissile := False, queuedFlip := None\<rparr>)"

text \<open>
  Keyboard events. \<open>targetIgnored\<close> is the result of \<^verbatim>\<open>shouldIgnoreKeyEvent\<close>, which looks at
  the DOM element the event was sent to. \<^verbatim>\<open>toLowerCase\<close> is modelled on ASCII letters, which
  covers every key the handlers compare with.
\<close>

record KeyboardEvent =
  key :: string
  repeat :: bool
  targetIgnored :: bool

definition toLowerCase :: "string \<Rightarrow> string" where
  "toLowerCase s =
     map (\<lambda>c. let n = (of_char c :: nat) in if 65 \<le> n \<and> n \<le> 90 then char_of (n + 32) else c) s"

definition ifThen :: "bool \<Rightarrow> ('a \<Rightarrow> 'a) \<Rightarrow> 'a \<Rightarrow> 'a" where
  "ifThen c f x = (if c then f x else x)"

definition setKeys :: "(Keys \<Rightarrow> Keys) \<Rightarrow> InputRouter \<Rightarrow> InputRouter" where
  "setKeys f r = r\<lparr>keys := f (keys r)\<rparr>"

text \<open>The handlers are sequences of \<^verbatim>\<open>if (c) { ... }\<close>; the first one runs first.\<close>

definition InputRouter_onKeyDown :: "KeyboardEvent \<Rightarrow> InputRouter \<Rightarrow> InputRouter" where
  "InputRouter_onKeyDown e r =
     (if targetIgnored e then r
      else
        let k = toLowerCase (key e)
        in ifThen (k = ''m'') (ifThen (\<not> repeat e) InputRouter_queueMissile)
          (ifThen (k = ''f'') InputRouter_queueGunBurst
          (ifThen (key e = '' '')
             (\<lambda>r'. ifThen (\<not> repeat e) InputRouter_queueGunBurst
                     (setKeys (\<lambda>ks. ks\<lparr>key_fire := True\<rparr>) r'))
          (ifThen (k = ''x'' \<or> k = ''c'') (setKeys (\<lambda>ks. ks\<lparr>key_stop := True\<rparr>))
          (ifThen (key e = ''Shift'') (setKeys (\<lambda>ks. ks\<lparr>key_boost := True\<rparr>))
          (ifThen (k = ''s'' \<or> key e = ''ArrowDown'') (setKeys (\<lambda>ks. ks\<lparr>key_down := True\<rparr>))
          (ifThen (k = ''w'' \<or> key e = ''ArrowUp'') (setKeys (\<lambda>ks. ks\<lparr>key_up := True\<rparr>))
          (ifThen (k = ''d'' \<or> key e = ''ArrowRight'') (setKeys (\<lambda>ks. ks\<lparr>key_right := True\<rparr>))
          (ifThen (k = ''a'' \<or> key e = ''ArrowLeft'') (setKeys (\<lambda>ks. ks\<lparr>key_left := True\<rparr>))
             r)))))))))"

definition InputRouter_onKeyUp :: "KeyboardEvent \<Rightarrow> InputRouter \<Rightarrow> InputRouter" where
  "InputRouter_onKeyUp e r =
     (if targetIgnored e then r
      else
        let k = toLowerCase (key e)
        in ifThen (key e = '' '') (setKeys (\<lambda>ks. ks\<lparr>key_fire := False\<rparr>))
          (ifThen (k = ''x'' \<or> k = ''c'') (setKeys (\<lambda>ks. ks\<lparr>key_stop := False\<rparr>))
          (ifThen (key e = ''Shift'') (setKeys (\<lambda>ks. ks\<lparr>key_boost := False\<rparr>))
          (ifThen (k = ''s'' \<or> key e = ''ArrowDown'') (setKeys (\<lambda>ks. ks\<lparr>key_down := False\<rparr>))
          (ifThen (k = ''w'' \<or> key e = ''ArrowUp'') (setKeys (\<lambda>ks. ks\<lparr>key_up := False\<rparr>))
          (ifThen (k = ''d'' \<or> key e = ''ArrowRight'') (setKeys (\<lambda>ks. ks\<lparr>key_right := False\<rparr>))
          (ifThen (k = ''a'' \<or> key e = ''ArrowLeft'') (setKeys (\<lambda>ks. ks\<lparr>key_left := False\<rparr>))
             r)))))))"

text \<open>
  The calls a router receives between two polls, as a datatype, and a sequence of them
  applied in order. \<open>isQueueRequest\<close> marks the calls that can put a one-shot request into a
  queue: the three \<^verbatim>\<open>queue...\<close> methods, the voice commands and the keys that reach them.
\<close>

datatype RouterCall =
  SetHasCamera bool
  | SetStopHeld bool
  | ToggleStop
  | Nudge real real jsnum real
  | QueueGunBurst
  | QueueMissile
  | QueueFlip FlipAxis int
  | HandleVoiceCommand VoiceCommand real
  | KeyDown KeyboardEvent
  | KeyUp KeyboardEvent

fun applyCall :: "RouterCall \<Rightarrow> InputRouter \<Rightarrow> InputRouter" where
  "applyCall (SetHasCamera b) r = InputRouter_setHasCamera b r"
| "applyCall (SetStopHeld b) r = InputRouter_setStopHeld b r"
| "applyCall ToggleStop r = InputRouter_toggleStop r"
| "applyCall (Nudge x y d now) r = InputRouter_nudge x y d now r"
| "applyCall QueueGunBurst r = InputRouter_queueGunBurst r"
| "applyCall QueueMissile r = InputRouter_queueMissile r"
| "applyCall (QueueFlip a d) r = InputRouter_queueFlip a d r"
| "applyCall (HandleVoiceCommand c now) r = InputRouter_handleVoiceCommand c now r"
| "applyCall (KeyDown e) r = InputRouter_onKeyDown e r"
| "applyCall (KeyUp e) r = InputRouter_onKeyUp e r"

fun applyCalls :: "RouterCall list \<Rightarrow> InputRouter \<Rightarrow> InputRouter" where
  "applyCalls [] r = r"
| "applyCalls (c # cs) r = applyCalls cs (applyCall c r)"

fun isQueueRequest :: "RouterCall \<Rightarrow> bool" where
  "isQueueRequest QueueGunBurst = True"
| "isQueueRequest QueueMissile = True"
| "isQueueRequest (QueueFlip a d) = True"
| "isQueueRequest (HandleVoiceCommand VFireGuns now) = True"
| "isQueueRequest (HandleVoiceCommand VFireMissile now) = True"
| "isQueueRequest (HandleVoiceCommand (VFlip a d) now) = True"
| "isQueueRequest (KeyDown e) =
     (\<not> targetIgnored e \<and>
      (key e = '' '' \<or> toLowerCase (key e) = ''f'' \<or> toLowerCase (key e) = ''m''))"
| "isQueueRequest _ = False"

text \<open>Two routers with the same queued one-shot requests.\<close>

definition sameQueues :: "InputRouter \<Rightarrow> InputRouter \<Rightarrow> bool" where
  "sameQueues r' r = (queuedGunBurst r' = queuedGunBurst r \<and> queuedMissile r' = queuedMissile r
     \<and> queuedFlip r' = queuedFlip r)"

section \<open>Projectiles.ts\<close>

record LaserShot =
  laser_active :: bool
  laser_ttl :: real
  laser_pos :: Vector3
  laser_vel :: Vector3

definition LaserShot_new :: LaserShot where
  "LaserShot_new = \<lparr>laser_active = False, laser_ttl = 0, laser_pos = vec3 0 0 0, laser_vel = vec3 0 0 0\<rparr>"

definition LaserShot_spawn :: "Vector3 \<Rightarrow> Vector3 \<Rightarrow> real \<Rightarrow> LaserShot \<Rightarrow> LaserShot" where
  "LaserShot_spawn p v t l = l\<lparr>laser_active := True, laser_ttl := t, laser_pos := p, laser_vel := v\<rparr>"

definition LaserShot_update :: "real \<Rightarrow> LaserShot \<Rightarrow> LaserShot" where
  "LaserShot_update dt l =
     (if \<not> laser_active l then l
      else let l1 = l\<lparr>laser_ttl := laser_ttl l - dt\<rparr>
           in if laser_ttl l1 \<le> 0 then l1\<lparr>laser_active := False\<rparr>
              else l1\<lparr>laser_pos := v_addScaledVector (laser_pos l1) (laser_vel l1) dt\<rparr>)"

record MissileShot =
  missile_active :: bool
  missile_ttl :: real
  missile_pos :: Vector3
  missile_vel :: Vector3

definition MissileShot_new :: MissileShot where
  "MissileShot_new =
     \<lparr>missile_active = False, missile_ttl = 0, missile_pos = vec3 0 0 0, missile_vel = vec3 0 0 0\<rparr>"

definition MissileShot_spawn :: "Vector3 \<Rightarrow> Vector3 \<Rightarrow> real \<Rightarrow> MissileShot \<Rightarrow> MissileShot" where
  "MissileShot_spawn p initialVel t m =
     m\<lparr>missile_active := True, missile_ttl := t, missile_pos := p, missile_vel := initialVel\<rparr>"



section \<open>Enemy.ts\<close>

datatype EnemyKind = Ship | Spike

record EnemySpawnBounds =
  xRange :: real
  yRange :: real
  zMin :: real
  zMax :: real

record EnemyConfig =
  cfg_kind :: EnemyKind
  cfg_hp :: real
  cfg_radius :: real
  cfg_approachSpeed :: real
  cfg_reward :: real

text \<open>A three.js \<^verbatim>\<open>Object3D\<close>, as far as the simulation writes it.\<close>

record Object3D =
  position :: Vector3
  rotation :: Vector3
  scale :: Vector3
  visible :: bool

definition Object3D_new :: Object3D where
  "Object3D_new = \<lparr>position = vec3 0 0 0, rotation = vec3 0 0 0, scale = vec3 1 1 1, visible = True\<rparr>"

record Enemy =
  enemy_id :: real
  kind :: EnemyKind
  mesh :: Object3D
  radius :: real
  reward :: real
  approachSpeed :: real
  maxHp :: real
  hp :: real
  alive :: bool

definition Enemy_new :: "real \<Rightarrow> EnemyKind \<Rightarrow> Object3D \<Rightarrow> EnemyConfig \<Rightarrow> Enemy" where
  "Enemy_new i k m cfg =
     \<lparr>enemy_id = i, kind = k, mesh = m,
      radius = max (2 / 10) (cfg_radius cfg),
      reward = max 1 (of_int \<lfloor>cfg_reward cfg\<rfloor>),
      approachSpeed = max 1 (cfg_approachSpeed cfg),
      maxHp = max 1 (of_int \<lfloor>cfg_hp cfg\<rfloor>),
      hp = max 1 (of_int \<lfloor>cfg_hp cfg\<rfloor>),
      alive = True\<rparr>"

definition Enemy_spawn :: "EnemySpawnBounds \<Rightarrow> real \<Rightarrow> Enemy \<Rightarrow> rng \<Rightarrow> Enemy \<times> rng" where
  "Enemy_spawn bounds playerY e r =
     (case randRange (- xRange bounds) (xRange bounds) r of (px, r1) \<Rightarrow>
      case randRange (- yRange bounds) (yRange bounds) r1 of (py, r2) \<Rightarrow>
      case randRange (zMin bounds) (zMax bounds) r2 of (pz, r3) \<Rightarrow>
        (e\<lparr>alive := True, hp := maxHp e,
           mesh := (mesh e)\<lparr>position := vec3 px (py + playerY * (25 / 100)) pz,
                     rotation := vec3 0 0 0, scale := vec3 1 1 1, visible := True\<rparr>\<rparr>, r3))"

definition Enemy_update :: "real \<Rightarrow> real \<Rightarrow> Vector3 \<Rightarrow> real \<Rightarrow> Enemy \<Rightarrow> Enemy" where
  "Enemy_update dt worldSpeed playerPos timeMs e =
     (if \<not> alive e then e
      else let p = position (mesh e);
               z1 = vz p - (worldSpeed + approachSpeed e) * dt;
               x1 = MathUtils_lerp (vx p) (vx playerPos) (1 - exp (- (8 / 10) * dt));
               y1 = MathUtils_lerp (vy p) (vy playerPos) (1 - exp (- (8 / 10) * dt));
               wobble = sin (timeMs * (15 / 10000) + enemy_id e) * (15 / 100)
           in e\<lparr>mesh := (mesh e)\<lparr>position := vec3 x1 y1 z1,
                         rotation := (rotation (mesh e))\<lparr>vz := wobble\<rparr>\<rparr>\<rparr>)"

definition Enemy_isOutOfRange :: "real \<Rightarrow> Enemy \<Rightarrow> bool" where
  "Enemy_isOutOfRange zBehind e = (vz (position (mesh e)) < zBehind)"

definition Enemy_takeDamage :: "real \<Rightarrow> Enemy \<Rightarrow> Enemy" where
  "Enemy_takeDamage amount e =
     (if \<not> alive e then e
      else let e1 = e\<lparr>hp := clamp (hp e - max 1 (of_int \<lfloor>amount\<rfloor>)) 0 (maxHp e)\<rparr>
           in if hp e1 \<le> 0 then e1\<lparr>alive := False, mesh := (mesh e1)\<lparr>visible := False\<rparr>\<rparr> else e1)"

text \<open>
  The calls an enemy receives in its life, and the enemies reachable from the constructor
  by them.
\<close>

inductive reachableEnemy :: "Enemy \<Rightarrow> bool" where
  constructed: "reachableEnemy (Enemy_new i k m cfg)"
| spawned: "reachableEnemy e \<Longrightarrow> reachableEnemy (fst (Enemy_spawn bounds playerY e r))"
| updated: "reachableEnemy e \<Longrightarrow> reachableEnemy (Enemy_update dt worldSpeed playerPos timeMs e)"
| damaged: "reachableEnemy e \<Longrightarrow> reachableEnemy (Enemy_takeDamage amount e)"

definition Enemy_inv :: "Enemy \<Rightarrow> bool" where
  "Enemy_inv e = (0 \<le> hp e \<and> hp e \<le> maxHp e \<and> alive e = (hp e > 0))"

section \<open>Loops that draw random numbers\<close>

text \<open>
  \<^verbatim>\<open>for (const t of items) { ... }\<close> with a body that changes \<open>t\<close> and calls
  \<^verbatim>\<open>Math.random()\<close>, and \<^verbatim>\<open>Array.from({ length: n }, () => ...)\<close>.
\<close>

fun forEachRng :: "('a \<Rightarrow> rng \<Rightarrow> 'b \<times> rng) \<Rightarrow> 'a list \<Rightarrow> rng \<Rightarrow> 'b list \<times> rng" where
  "forEachRng f [] r = ([], r)"
| "forEachRng f (x # xs) r =
     (case f x r of (y, r1) \<Rightarrow> case forEachRng f xs r1 of (ys, r2) \<Rightarrow> (y # ys, r2))"

fun arrayFromRng :: "nat \<Rightarrow> (rng \<Rightarrow> 'a \<times> rng) \<Rightarrow> rng \<Rightarrow> 'a list \<times> rng" where
  "arrayFromRng 0 f r = ([], r)"
| "arrayFromRng (Suc n) f r =
     (case f r of (y, r1) \<Rightarrow> case arrayFromRng n f r1 of (ys, r2) \<Rightarrow> (y # ys, r2))"

section \<open>worlds/World.ts, EarthParkWorld.ts, OrbitWorld.ts\<close>

text \<open>
  A world owns pools of obstacles and pickups and the GPU objects (geometries, materials,
  instanced meshes) it draws them with. A GPU object is a \<open>resource\<close>; a field that holds
  one is \<open>None\<close> when the source's field is \<^verbatim>\<open>null\<close>, which is also what \<^verbatim>\<open>dispose()\<close> leaves.
  \<open>attached\<close> says whether the world's root group is in the scene. Instance matrices, fog and
  background colours are drawing state and are not modelled.
\<close>

datatype resource = Resource

record WorldPlayerBounds =
  xMin :: real
  xMax :: real
  yMin :: real
  yMax :: real

record 'a Pool =
  items :: "'a list"
  count :: int

record Pickup =
  pickup_pos :: Vector3
  pickup_rot :: Vector3
  pickup_spin :: real
  pickup_radius :: real

subsection \<open>EarthParkWorld\<close>

record GroundTile =
  tile_mesh_position :: Vector3
  tile_z :: real

record Tree =
  tree_pos :: Vector3
  rotY :: real
  tree_scale :: real
  tree_radius :: real

definition GROUND_Y :: real where "GROUND_Y = - (65 / 10)"
definition TILE_LENGTH :: real where "TILE_LENGTH = 90"
definition TILE_COUNT :: nat where "TILE_COUNT = 3"
definition EP_WORLD_Z_SPAWN_MIN :: real where "EP_WORLD_Z_SPAWN_MIN = 55"
definition EP_WORLD_Z_SPAWN_MAX :: real where "EP_WORLD_Z_SPAWN_MAX = 200"
definition EP_WORLD_Z_BEHIND :: real where "EP_WORLD_Z_BEHIND = - 32"

definition computeTreeCount :: "LevelConfig \<Rightarrow> int" where
  "computeTreeCount lv =
     (let density = max 0 (min 1 (obstacleDensity lv));
          base = Math_round (10 + density * 40)
      in max 12 (min 80 base))"

definition EP_computePickupPoolSize :: "LevelConfig \<Rightarrow> int" where
  "EP_computePickupPoolSize lv = (let est = Math_round (pickupRate lv * 14 + 4) in max 6 (min 26 est))"

record EarthParkWorld =
  ep_level :: LevelConfig
  ep_isIOS :: bool
  ep_attached :: bool
  groundTiles :: "GroundTile list"
  groundGeo :: "resource option"
  groundMat :: "resource option"
  trunkMesh :: "resource option"
  foliageMesh :: "resource option"
  trunkGeo :: "resource option"
  trunkMat :: "resource option"
  foliageGeo :: "resource option"
  foliageMat :: "resource option"
  trees :: "Tree Pool option"
  ep_pickupMesh :: "resource option"
  ep_pickupGeo :: "resource option"
  ep_pickupMat :: "resource option"
  ep_pickups :: "Pickup Pool option"

definition EP_playerBounds :: WorldPlayerBounds where
  "EP_playerBounds = \<lparr>xMin = - 7, xMax = 7, yMin = - (35 / 10), yMax = 6\<rparr>"

definition EP_enemySpawnBounds :: EnemySpawnBounds where
  "EP_enemySpawnBounds = \<lparr>xRange = 8, yRange = 45 / 10, zMin = 95, zMax = 165\<rparr>"

definition EarthParkWorld_new :: "bool \<Rightarrow> LevelConfig \<Rightarrow> EarthParkWorld" where
  "EarthParkWorld_new ios lv =
     \<lparr>ep_level = lv, ep_isIOS = ios, ep_attached = False, groundTiles = [], groundGeo = None,
      groundMat = None, trunkMesh = None, foliageMesh = None, trunkGeo = None, trunkMat = None,
      foliageGeo = None, foliageMat = None, trees = None, ep_pickupMesh = None,
      ep_pickupGeo = None, ep_pickupMat = None, ep_pickups = None\<rparr>"

definition EP_resetTile :: "nat \<times> GroundTile \<Rightarrow> GroundTile" where
  "EP_resetTile it =
     (case it of (i, t) \<Rightarrow>
        t\<lparr>tile_z := of_nat i * TILE_LENGTH,
          tile_mesh_position := (tile_mesh_position t)\<lparr>vz := of_nat i * TILE_LENGTH\<rparr>\<rparr>)"

definition EP_resetTree :: "Tree \<Rightarrow> rng \<Rightarrow> Tree \<times> rng" where
  "EP_resetTree t r =
     (case randRange (xMin EP_playerBounds - 3) (xMax EP_playerBounds + 3) r of (px, r1) \<Rightarrow>
      case randRange EP_WORLD_Z_SPAWN_MIN EP_WORLD_Z_SPAWN_MAX r1 of (pz, r2) \<Rightarrow>
      case random r2 of (u, r3) \<Rightarrow>
      case randRange (85 / 100) (135 / 100) r3 of (sc, r4) \<Rightarrow>
        (t\<lparr>tree_pos := vec3 px GROUND_Y pz, rotY := u * pi * 2, tree_scale := sc,
           tree_radius := (65 / 100) * sc\<rparr>, r4))"

definition EP_resetPickup :: "Pickup \<Rightarrow> rng \<Rightarrow> Pickup \<times> rng" where
  "EP_resetPickup p r =
     (case randRange (xMin EP_playerBounds) (xMax EP_playerBounds) r of (px, r1) \<Rightarrow>
      case randRange (- (15 / 10)) (45 / 10) r1 of (py, r2) \<Rightarrow>
      case randRange EP_WORLD_Z_SPAWN_MIN EP_WORLD_Z_SPAWN_MAX r2 of (pz, r3) \<Rightarrow>
      case randRange (8 / 10) 2 r3 of (sp, r4) \<Rightarrow>
        (p\<lparr>pickup_pos := vec3 px py pz, pickup_rot := vec3 0 0 0, pickup_spin := sp\<rparr>, r4))"

definition EarthParkWorld_reset :: "Vector3 \<Rightarrow> EarthParkWorld \<Rightarrow> rng \<Rightarrow> EarthParkWorld \<times> rng" where
  "EarthParkWorld_reset playerPos w r =
     (let tiles = map EP_resetTile (zip [0 ..< length (groundTiles w)] (groundTiles w));
          (trees', r1) = (case trees w of
                            None \<Rightarrow> (None, r)
                          | Some tp \<Rightarrow> (case forEachRng EP_resetTree (items tp) r of
                                         (ts, r') \<Rightarrow> (Some (tp\<lparr>items := ts\<rparr>), r')));
          (pickups', r2) = (case ep_pickups w of
                              None \<Rightarrow> (None, r1)
                            | Some pp \<Rightarrow> (case forEachRng EP_resetPickup (items pp) r1 of
                                           (ps, r') \<Rightarrow> (Some (pp\<lparr>items := ps\<rparr>), r')))
      in (w\<lparr>groundTiles := tiles, trees := trees', ep_pickups := pickups'\<rparr>, r2))"

definition EP_newTile :: "nat \<Rightarrow> GroundTile" where
  "EP_newTile i =
     \<lparr>tile_mesh_position = vec3 0 GROUND_Y (of_nat i * TILE_LENGTH), tile_z = of_nat i * TILE_LENGTH\<rparr>"

definition EP_newTree :: "rng \<Rightarrow> Tree \<times> rng" where
  "EP_newTree r =
     (case randRange EP_WORLD_Z_SPAWN_MIN EP_WORLD_Z_SPAWN_MAX r of (pz, r1) \<Rightarrow>
      case random r1 of (u, r2) \<Rightarrow>
      case randRange (85 / 100) (135 / 100) r2 of (sc, r3) \<Rightarrow>
        (\<lparr>tree_pos = vec3 0 GROUND_Y pz, rotY = u * pi * 2, tree_scale = sc, tree_radius = 8 / 10\<rparr>, r3))"

definition EP_placeTree :: "Tree \<Rightarrow> rng \<Rightarrow> Tree \<times> rng" where
  "EP_placeTree t r =
     (case randRange (xMin EP_playerBounds - 3) (xMax EP_playerBounds + 3) r of (px, r1) \<Rightarrow>
        (t\<lparr>tree_pos := (tree_pos t)\<lparr>vx := px\<rparr>, tree_radius := (65 / 100) * tree_scale t\<rparr>, r1))"

definition EP_newPickup :: "rng \<Rightarrow> Pickup \<times> rng" where
  "EP_newPickup r =
     (case randRange (xMin EP_playerBounds) (xMax EP_playerBounds) r of (px, r1) \<Rightarrow>
      case randRange (- (15 / 10)) (45 / 10) r1 of (py, r2) \<Rightarrow>
      case randRange EP_WORLD_Z_SPAWN_MIN EP_WORLD_Z_SPAWN_MAX r2 of (pz, r3) \<Rightarrow>
      case randRange (8 / 10) 2 r3 of (sp, r4) \<Rightarrow>
        (\<lparr>pickup_pos = vec3 px py pz, pickup_rot = vec3 0 0 0, pickup_spin = sp,
          pickup_radius = 55 / 100\<rparr>, r4))"

definition EarthParkWorld_create :: "EarthParkWorld \<Rightarrow> rng \<Rightarrow> EarthParkWorld \<times> rng" where
  "EarthParkWorld_create w r =
     (let tiles = groundTiles w @ map EP_newTile [0 ..< TILE_COUNT];
          treeCount = (if ep_isIOS w
                       then Math_round (of_int (computeTreeCount (ep_level w)) * (82 / 100))
                       else computeTreeCount (ep_level w));
          (ts0, r1) = arrayFromRng (nat treeCount) EP_newTree r;
          (ts, r2) = forEachRng EP_placeTree ts0 r1;
          pickupCount = (if ep_isIOS w
                         then Math_round (of_int (EP_computePickupPoolSize (ep_level w)) * (9 / 10))
                         else EP_computePickupPoolSize (ep_level w));
          (ps, r3) = arrayFromRng (nat pickupCount) EP_newPickup r2;
          w1 = w\<lparr>ep_attached := True, groundGeo := Some Resource, groundMat := Some Resource,
                groundTiles := tiles, trunkGeo := Some Resource, foliageGeo := Some Resource,
                trunkMat := Some Resource, foliageMat := Some Resource,
                trunkMesh := Some Resource, foliageMesh := Some Resource,
                trees := Some \<lparr>items = ts, count = treeCount\<rparr>,
                ep_pickupMesh := Some Resource, ep_pickupGeo := Some Resource,
                ep_pickupMat := Some Resource,
                ep_pickups := Some \<lparr>items = ps, count = pickupCount\<rparr>\<rparr>
      in EarthParkWorld_reset (vec3 0 0 0) w1 r3)"

definition EarthParkWorld_dispose :: "EarthParkWorld \<Rightarrow> EarthParkWorld" where
  "EarthParkWorld_dispose w =
     w\<lparr>ep_attached := False, groundTiles := [], groundGeo := None, groundMat := None,
       trunkGeo := None, trunkMat := None, foliageGeo := None, foliageMat := None,
       trunkMesh := None, foliageMesh := None, trees := None, ep_pickupGeo := None,
       ep_pickupMat := None, ep_pickupMesh := None, ep_pickups := None\<rparr>"

subsection \<open>OrbitWorld\<close>

record Asteroid =
  ast_pos :: Vector3
  ast_rot :: Vector3
  ast_spin :: Vector3
  ast_scale :: real
  ast_radius :: real

definition OW_WORLD_Z_SPAWN_MIN :: real where "OW_WORLD_Z_SPAWN_MIN = 70"
definition OW_WORLD_Z_SPAWN_MAX :: real where "OW_WORLD_Z_SPAWN_MAX = 220"
definition OW_WORLD_Z_BEHIND :: real where "OW_WORLD_Z_BEHIND = - 28"
definition ASTEROID_FIELD_X :: real where "ASTEROID_FIELD_X = 18"
definition ASTEROID_FIELD_Y :: real where "ASTEROID_FIELD_Y = 10"
definition SAFE_LANE_X :: real where "SAFE_LANE_X = 34 / 10"
definition SAFE_LANE_Y :: real where "SAFE_LANE_Y = 24 / 10"

fun laneTry :: "nat \<Rightarrow> real \<Rightarrow> real \<Rightarrow> rng \<Rightarrow> (real \<times> real) option \<times> rng" where
  "laneTry 0 rangeX rangeY r = (None, r)"
| "laneTry (Suc n) rangeX rangeY r =
     (case randRange (- rangeX) rangeX r of (x, r1) \<Rightarrow>
      case randRange (- rangeY) rangeY r1 of (y, r2) \<Rightarrow>
        if \<bar>x\<bar> > SAFE_LANE_X \<or> \<bar>y\<bar> > SAFE_LANE_Y then (Some (x, y), r2)
        else laneTry n rangeX rangeY r2)"

definition randomLanePos :: "real \<Rightarrow> real \<Rightarrow> rng \<Rightarrow> (real \<times> real) \<times> rng" where
  "randomLanePos rangeX rangeY r =
     (case laneTry 6 rangeX rangeY r of
        (Some p, r') \<Rightarrow> (p, r')
      | (None, r') \<Rightarrow>
          (case random r' of (u1, r1) \<Rightarrow>
           case randRange SAFE_LANE_X rangeX r1 of (a, r2) \<Rightarrow>
           case random r2 of (u2, r3) \<Rightarrow>
           case randRange SAFE_LANE_Y rangeY r3 of (b, r4) \<Rightarrow>
             (((if u1 < 1 / 2 then - 1 else 1) * a, (if u2 < 1 / 2 then - 1 else 1) * b), r4)))"

definition OW_computePickupPoolSize :: "LevelConfig \<Rightarrow> int" where
  "OW_computePickupPoolSize lv = (let est = Math_round (pickupRate lv * 16 + 4) in max 6 (min 28 est))"

definition computeAsteroidCount :: "LevelConfig \<Rightarrow> int" where
  "computeAsteroidCount lv = (let n = Math_round (asteroidCount lv) in max 0 (min 220 n))"

record Starfield =
  uTime :: real

record OrbitWorld =
  ow_level :: LevelConfig
  ow_isIOS :: bool
  ow_attached :: bool
  star :: "Starfield option"
  asteroidGeo :: "resource option"
  asteroidMat :: "resource option"
  asteroids :: "Asteroid Pool option"
  ow_pickupGeo :: "resource option"
  ow_pickupMat :: "resource option"
  ow_pickups :: "Pickup Pool option"

definition OW_playerBounds :: WorldPlayerBounds where
  "OW_playerBounds = \<lparr>xMin = - 11, xMax = 11, yMin = - 7, yMax = 7\<rparr>"

definition OW_enemySpawnBounds :: EnemySpawnBounds where
  "OW_enemySpawnBounds = \<lparr>xRange = 12, yRange = 7, zMin = 110, zMax = 190\<rparr>"

definition OrbitWorld_new :: "bool \<Rightarrow> LevelConfig \<Rightarrow> OrbitWorld" where
  "OrbitWorld_new ios lv =
     \<lparr>ow_level = lv, ow_isIOS = ios, ow_attached = False, star = None, asteroidGeo = None,
      asteroidMat = None, asteroids = None, ow_pickupGeo = None, ow_pickupMat = None,
      ow_pickups = None\<rparr>"

definition rand3 :: "(rng \<Rightarrow> real \<times> rng) \<Rightarrow> rng \<Rightarrow> Vector3 \<times> rng" where
  "rand3 f r =
     (case f r of (a, r1) \<Rightarrow> case f r1 of (b, r2) \<Rightarrow> case f r2 of (c, r3) \<Rightarrow> (vec3 a b c, r3))"

definition randomAngle :: "rng \<Rightarrow> real \<times> rng" where
  "randomAngle r = (case random r of (u, r') \<Rightarrow> (u * pi, r'))"

definition OW_resetAsteroid :: "Asteroid \<Rightarrow> rng \<Rightarrow> Asteroid \<times> rng" where
  "OW_resetAsteroid a r =
     (case randomLanePos ASTEROID_FIELD_X ASTEROID_FIELD_Y r of ((px, py), r1) \<Rightarrow>
      case randRange OW_WORLD_Z_SPAWN_MIN OW_WORLD_Z_SPAWN_MAX r1 of (pz, r2) \<Rightarrow>
      case randRange (45 / 100) (145 / 100) r2 of (sc, r3) \<Rightarrow>
      case rand3 randomAngle r3 of (rot, r4) \<Rightarrow>
      case rand3 (randRange (- (12 / 10)) (12 / 10)) r4 of (sp, r5) \<Rightarrow>
        (a\<lparr>ast_pos := vec3 px py pz, ast_scale := sc, ast_radius := sc * (82 / 100),
           ast_rot := rot, ast_spin := sp\<rparr>, r5))"

definition OW_resetPickup :: "Pickup \<Rightarrow> rng \<Rightarrow> Pickup \<times> rng" where
  "OW_resetPickup p r =
     (case randRange (- 10) 10 r of (px, r1) \<Rightarrow>
      case randRange (- 6) 6 r1 of (py, r2) \<Rightarrow>
      case randRange OW_WORLD_Z_SPAWN_MIN OW_WORLD_Z_SPAWN_MAX r2 of (pz, r3) \<Rightarrow>
      case randRange (8 / 10) 2 r3 of (sp, r4) \<Rightarrow>
        (p\<lparr>pickup_pos := vec3 px py pz, pickup_rot := vec3 0 0 0, pickup_spin := sp\<rparr>, r4))"

definition OrbitWorld_reset :: "Vector3 \<Rightarrow> OrbitWorld \<Rightarrow> rng \<Rightarrow> OrbitWorld \<times> rng" where
  "OrbitWorld_reset playerPos w r =
     (let (asts', r1) = (case asteroids w of
                           None \<Rightarrow> (None, r)
                         | Some ap \<Rightarrow> (case forEachRng OW_resetAsteroid (items ap) r of
                                        (as, r') \<Rightarrow> (Some (ap\<lparr>items := as\<rparr>), r')));
          (pickups', r2) = (case ow_pickups w of
                              None \<Rightarrow> (None, r1)
                            | Some pp \<Rightarrow> (case forEachRng OW_resetPickup (items pp) r1 of
                                           (ps, r') \<Rightarrow> (Some (pp\<lparr>items := ps\<rparr>), r')))
      in (w\<lparr>asteroids := asts', ow_pickups := pickups'\<rparr>, r2))"

text \<open>
  \<^verbatim>\<open>createStarfield\<close> draws four random numbers for each of its 10000 stars (6500 on
  iOS); the stars themselves are drawing state.
\<close>

definition createStarfield :: "bool \<Rightarrow> rng \<Rightarrow> Starfield \<times> rng" where
  "createStarfield ios r = (\<lparr>uTime = 0\<rparr>, sdrop (4 * (if ios then 6500 else 10000)) r)"

definition OW_newAsteroid :: "rng \<Rightarrow> Asteroid \<times> rng" where
  "OW_newAsteroid r =
     (case randRange OW_WORLD_Z_SPAWN_MIN OW_WORLD_Z_SPAWN_MAX r of (pz, r1) \<Rightarrow>
      case rand3 randomAngle r1 of (rot, r2) \<Rightarrow>
      case rand3 (randRange (- (12 / 10)) (12 / 10)) r2 of (sp, r3) \<Rightarrow>
      case randRange (45 / 100) (145 / 100) r3 of (sc, r4) \<Rightarrow>
        (\<lparr>ast_pos = vec3 0 0 pz, ast_rot = rot, ast_spin = sp, ast_scale = sc, ast_radius = 1\<rparr>, r4))"

definition OW_placeAsteroid :: "Asteroid \<Rightarrow> rng \<Rightarrow> Asteroid \<times> rng" where
  "OW_placeAsteroid a r =
     (case randomLanePos ASTEROID_FIELD_X ASTEROID_FIELD_Y r of ((px, py), r1) \<Rightarrow>
        (a\<lparr>ast_pos := (ast_pos a)\<lparr>vx := px, vy := py\<rparr>, ast_radius := ast_scale a * (82 / 100)\<rparr>, r1))"

definition OW_newPickup :: "rng \<Rightarrow> Pickup \<times> rng" where
  "OW_newPickup r =
     (case randRange (- 10) 10 r of (px, r1) \<Rightarrow>
      case randRange (- 6) 6 r1 of (py, r2) \<Rightarrow>
      case randRange OW_WORLD_Z_SPAWN_MIN OW_WORLD_Z_SPAWN_MAX r2 of (pz, r3) \<Rightarrow>
      case randRange (8 / 10) 2 r3 of (sp, r4) \<Rightarrow>
        (\<lparr>pickup_pos = vec3 px py pz, pickup_rot = vec3 0 0 0, pickup_spin = sp,
          pickup_radius = 55 / 100\<rparr>, r4))"

definition OrbitWorld_create :: "OrbitWorld \<Rightarrow> rng \<Rightarrow> OrbitWorld \<times> rng" where
  "OrbitWorld_create w r =
     (let (sf, r1) = createStarfield (ow_isIOS w) r;
          w1 = w\<lparr>ow_attached := True, star := Some sf\<rparr>;
          asteroidCount = computeAsteroidCount (ow_level w);
          (w2, r3) = (if asteroidCount > 0
                      then (case arrayFromRng (nat asteroidCount) OW_newAsteroid r1 of (as0, r2) \<Rightarrow>
                            case forEachRng OW_placeAsteroid as0 r2 of (as, r2') \<Rightarrow>
                              (w1\<lparr>asteroidGeo := Some Resource, asteroidMat := Some Resource,
                                  asteroids := Some \<lparr>items = as, count = asteroidCount\<rparr>\<rparr>, r2'))
                      else (w1, r1));
          pickupCount = OW_computePickupPoolSize (ow_level w);
          (ps, r4) = arrayFromRng (nat pickupCount) OW_newPickup r3;
          w3 = w2\<lparr>ow_pickupGeo := Some Resource, ow_pickupMat := Some Resource,
                 ow_pickups := Some \<lparr>items = ps, count = pickupCount\<rparr>\<rparr>
      in OrbitWorld_reset (vec3 0 0 0) w3 r4)"

definition OrbitWorld_dispose :: "OrbitWorld \<Rightarrow> OrbitWorld" where
  "OrbitWorld_dispose w =
     w\<lparr>ow_attached := False, star := None, asteroidGeo := None, asteroidMat := None,
       asteroids := None, ow_pickupGeo := None, ow_pickupMat := None, ow_pickups := None\<rparr>"

subsection \<open>The World interface and createWorld.ts\<close>

datatype World = EarthParkW EarthParkWorld | OrbitW OrbitWorld

definition isSpaceEnvironment :: "Environment \<Rightarrow> bool" where
  "isSpaceEnvironment env = (env = Orbit \<or> env = UpperAtmos \<or> env = Alien \<or> env = War)"

definition createWorld :: "bool \<Rightarrow> LevelConfig \<Rightarrow> World" where
  "createWorld ios lv =
     (if isSpaceEnvironment (environment lv) then OrbitW (OrbitWorld_new ios lv)
      else EarthParkW (EarthParkWorld_new ios lv))"

fun World_create :: "World \<Rightarrow> rng \<Rightarrow> World \<times> rng" where
  "World_create (EarthParkW w) r = (case EarthParkWorld_create w r of (w', r') \<Rightarrow> (EarthParkW w', r'))"
| "World_create (OrbitW w) r = (case OrbitWorld_create w r of (w', r') \<Rightarrow> (OrbitW w', r'))"

fun World_reset :: "Vector3 \<Rightarrow> World \<Rightarrow> rng \<Rightarrow> World \<times> rng" where
  "World_reset p (EarthParkW w) r = (case EarthParkWorld_reset p w r of (w', r') \<Rightarrow> (EarthParkW w', r'))"
| "World_reset p (OrbitW w) r = (case OrbitWorld_reset p w r of (w', r') \<Rightarrow> (OrbitW w', r'))"

fun World_dispose :: "World \<Rightarrow> World" where
  "World_dispose (EarthParkW w) = EarthParkW (EarthParkWorld_dispose w)"
| "World_dispose (OrbitW w) = OrbitW (OrbitWorld_dispose w)"

fun World_enemySpawnBounds :: "World \<Rightarrow> EnemySpawnBounds" where
  "World_enemySpawnBounds (EarthParkW w) = EP_enemySpawnBounds"
| "World_enemySpawnBounds (OrbitW w) = OW_enemySpawnBounds"

fun World_playerBounds :: "World \<Rightarrow> WorldPlayerBounds" where
  "World_playerBounds (EarthParkW w) = EP_playerBounds"
| "World_playerBounds (OrbitW w) = OW_playerBounds"

fun World_behindZ :: "World \<Rightarrow> real" where
  "World_behindZ (EarthParkW w) = EP_WORLD_Z_BEHIND"
| "World_behindZ (OrbitW w) = OW_WORLD_Z_BEHIND"

section \<open>Drone.ts\<close>

record FlipAnim =
  flip_axis :: FlipAxis
  flip_dir :: int
  flip_t :: real
  flip_duration :: real

record Drone =
  drone_position :: Vector3
  drone_rotation :: Vector3
  drone_flip :: "FlipAnim option"
  thrusterIntensity :: real
  glowOpacity :: real

definition Drone_triggerFlip :: "FlipAxis \<Rightarrow> int \<Rightarrow> Drone \<Rightarrow> Drone" where
  "Drone_triggerFlip a d dr =
     dr\<lparr>drone_flip := Some \<lparr>flip_axis = a, flip_dir = d, flip_t = 0, flip_duration = 38 / 100\<rparr>\<rparr>"

section \<open>Game.ts\<close>

text \<open>
  The orchestrator's state. \<open>hasScene\<close> says whether \<^verbatim>\<open>this.scene\<close> is set; \<open>lasers\<close> is \<open>None\<close>
  when \<^verbatim>\<open>this.lasers\<close> is \<^verbatim>\<open>null\<close>. The meshes of a missile slot are their \<^verbatim>\<open>visible\<close> flags.
  \<open>hitFlashes\<close> counts the calls of the \<^verbatim>\<open>onHitFlash\<close> callback. The HUD texts, the renderer
  and the camera are outside the model.
\<close>

definition PLAYER_RADIUS :: real where "PLAYER_RADIUS = 11 / 10"
definition MAX_LASERS :: nat where "MAX_LASERS = 140"
definition MAX_MISSILES :: nat where "MAX_MISSILES = 8"
definition GUN_BURST_COUNT :: real where "GUN_BURST_COUNT = 5"
definition GUN_BURST_INTERVAL_MS :: real where "GUN_BURST_INTERVAL_MS = 70"
definition GUN_HOLD_INTERVAL_MS :: real where "GUN_HOLD_INTERVAL_MS = 95"
definition LASER_SPEED :: real where "LASER_SPEED = 58"
definition LASER_TTL :: real where "LASER_TTL = 11 / 10"
definition LASER_Z_MAX :: real where "LASER_Z_MAX = 260"
definition MISSILE_SPEED :: real where "MISSILE_SPEED = 26"
definition MISSILE_TTL :: real where "MISSILE_TTL = 32 / 10"
definition STRAFE_SPEED :: real where "STRAFE_SPEED = 10"

record EnemySlot =
  enemy :: Enemy
  deadUntilMs :: real

record Explosion =
  exp_mesh :: Object3D
  age :: real
  lifetime :: real
  startScale :: real

record MissileSlot =
  shot :: MissileShot
  missile_mesh_visible :: bool
  trail_visible :: bool

datatype ResetReason = Reset | Hit

record Game =
  running :: bool
  crashed :: bool
  isIOS :: bool
  level :: LevelConfig
  world :: "World option"
  score :: real
  speedBase :: real
  speed :: real
  pos :: Vector3
  gunBurstRemaining :: real
  gunBurstNextMs :: real
  lastGunFireMs :: real
  laserSpawnPos :: Vector3
  laserSpawnVel :: Vector3
  missileSpawnPos :: Vector3
  missileSpawnVel :: Vector3
  hasScene :: bool
  drone :: "Drone option"
  enemies :: "EnemySlot list"
  lasers :: "LaserShot list option"
  missiles :: "MissileSlot list"
  explosions :: "Explosion list"
  hitFlashes :: nat

definition Game_setRunning :: "bool \<Rightarrow> Game \<Rightarrow> Game" where
  "Game_setRunning b g = g\<lparr>running := b\<rparr>"

definition Game_addScore :: "real \<Rightarrow> Game \<Rightarrow> Game" where
  "Game_addScore amount g =
     (let delta = max 0 (of_int \<lfloor>amount\<rfloor>)
      in if delta = 0 then g else g\<lparr>score := score g + delta\<rparr>)"

definition Game_getEnemyKillReward :: "Game \<Rightarrow> rng \<Rightarrow> int \<times> rng" where
  "Game_getEnemyKillReward g r =
     (let mn = max 1 (of_int \<lfloor>enemyScoreMin (level g)\<rfloor>);
          mx = max mn (of_int \<lfloor>enemyScoreMax (level g)\<rfloor>)
      in randInt mn mx r)"

definition Game_updateSpeed :: "real \<Rightarrow> real \<Rightarrow> bool \<Rightarrow> Game \<Rightarrow> Game" where
  "Game_updateSpeed dt bst stopActive g =
     (let baseSpeed' = max 0 (baseSpeed (level g));
          maxSpeed' = max baseSpeed' (maxSpeed (level g));
          accel = max 0 (accelPerSec (level g));
          boostMult = max 1 (boostMultiplier (level g))
      in if stopActive then g\<lparr>speedBase := baseSpeed', speed := 0\<rparr>
         else if autoForward (level g)
         then let sb = clamp (speedBase g + accel * dt) baseSpeed' maxSpeed';
                  target = clamp (sb * (1 + bst * (boostMult - 1))) 0 maxSpeed';
                  t = 1 - exp (- 8 * dt)
              in g\<lparr>speedBase := sb, speed := MathUtils_lerp (speed g) target t\<rparr>
         else let target = clamp (baseSpeed' + bst * (maxSpeed' - baseSpeed')) 0 maxSpeed';
                  t = 1 - exp (- 10 * dt)
              in g\<lparr>speed := MathUtils_lerp (speed g) target t, speedBase := baseSpeed'\<rparr>)"

definition Game_computeEnemyPoolSize :: "LevelConfig \<Rightarrow> int" where
  "Game_computeEnemyPoolSize lv =
     (let rate = enemyRate lv
      in if rate \<le> 0 then 0 else max 0 (min 20 (Math_round (rate * 16))))"

definition enemyCfgs :: "EnemyKind \<Rightarrow> EnemyConfig" where
  "enemyCfgs k =
     (case k of
        Ship \<Rightarrow> \<lparr>cfg_kind = Ship, cfg_hp = 3, cfg_radius = 12 / 10, cfg_approachSpeed = 7, cfg_reward = 10\<rparr>
      | Spike \<Rightarrow> \<lparr>cfg_kind = Spike, cfg_hp = 2, cfg_radius = 11 / 10, cfg_approachSpeed = 9, cfg_reward = 5\<rparr>)"

definition createEnemyMesh :: "EnemyKind \<Rightarrow> Object3D" where
  "createEnemyMesh k =
     (case k of Ship \<Rightarrow> Object3D_new\<lparr>scale := vec3 (105 / 100) (105 / 100) (105 / 100)\<rparr>
              | Spike \<Rightarrow> Object3D_new)"

definition newEnemySlot :: "EnemySpawnBounds \<Rightarrow> nat \<Rightarrow> rng \<Rightarrow> EnemySlot \<times> rng" where
  "newEnemySlot bounds i r =
     (case random r of (u, r1) \<Rightarrow>
        let k = (if u < 65 / 100 then Ship else Spike);
            e = Enemy_new (of_nat i + 1) k (createEnemyMesh k) (enemyCfgs k)
        in case Enemy_spawn bounds 0 e r1 of (e', r2) \<Rightarrow> (\<lparr>enemy = e', deadUntilMs = 0\<rparr>, r2))"

definition Game_createEnemiesForLevel :: "Game \<Rightarrow> rng \<Rightarrow> Game \<times> rng" where
  "Game_createEnemiesForLevel g r =
     (case world g of
        None \<Rightarrow> (g, r)
      | Some w \<Rightarrow>
          if \<not> hasScene g then (g, r)
          else let n = Game_computeEnemyPoolSize (level g)
               in if n \<le> 0 then (g, r)
                  else case forEachRng (newEnemySlot (World_enemySpawnBounds w)) [0 ..< nat n] r of
                         (es, r') \<Rightarrow> (g\<lparr>enemies := es\<rparr>, r'))"

definition Game_disposeEnemies :: "Game \<Rightarrow> Game" where
  "Game_disposeEnemies g = g\<lparr>enemies := []\<rparr>"

definition defaultSpawnBounds :: EnemySpawnBounds where
  "defaultSpawnBounds = \<lparr>xRange = 12, yRange = 7, zMin = 110, zMax = 190\<rparr>"

definition respawnSlot :: "EnemySpawnBounds \<Rightarrow> real \<Rightarrow> EnemySlot \<Rightarrow> rng \<Rightarrow> EnemySlot \<times> rng" where
  "respawnSlot bounds playerY sl r =
     (case Enemy_spawn bounds playerY (enemy sl) r of
        (e, r') \<Rightarrow> (sl\<lparr>deadUntilMs := 0, enemy := e\<rparr>, r'))"

definition expire :: "Explosion \<Rightarrow> Explosion" where
  "expire e = e\<lparr>exp_mesh := (exp_mesh e)\<lparr>visible := False\<rparr>, age := lifetime e\<rparr>"

definition Game_reset :: "ResetReason \<Rightarrow> Game \<Rightarrow> rng \<Rightarrow> Game \<times> rng" where
  "Game_reset reason g r =
     (let p0 = vec3 0 0 0;
          g1 = g\<lparr>score := 1, speedBase := max 0 (baseSpeed (level g)), speed := 0, pos := p0,
                gunBurstRemaining := 0, gunBurstNextMs := 0, lastGunFireMs := 0,
                drone := map_option (\<lambda>d. d\<lparr>drone_position := p0\<rparr>) (drone g)\<rparr>;
          (w', r1) = (case world g1 of
                        None \<Rightarrow> (None, r)
                      | Some w \<Rightarrow> (case World_reset p0 w r of (w1, r') \<Rightarrow> (Some w1, r')));
          bounds = (case w' of Some w \<Rightarrow> World_enemySpawnBounds w | None \<Rightarrow> defaultSpawnBounds);
          (es, r2) = forEachRng (respawnSlot bounds (vy p0)) (enemies g1) r1
      in (g1\<lparr>world := w', enemies := es,
             lasers := map_option (map (\<lambda>l. l\<lparr>laser_active := False\<rparr>)) (lasers g1),
             missiles := map (\<lambda>m. m\<lparr>shot := (shot m)\<lparr>missile_active := False\<rparr>\<rparr>) (missiles g1),
             explosions := map expire (explosions g1),
             hitFlashes := (if reason = Hit then Suc (hitFlashes g1) else hitFlashes g1)\<rparr>, r2))"

definition Game_setLevel :: "jsnum \<Rightarrow> Game \<Rightarrow> rng \<Rightarrow> Game \<times> rng" where
  "Game_setLevel levelId g r =
     (if \<not> hasScene g then (g, r)
      else let next = getLevelConfig levelId;
               g1 = Game_disposeEnemies (g\<lparr>level := next, world := None\<rparr>);
               (w, r1) = World_create (createWorld (isIOS g) next) r;
               (g2, r2) = Game_createEnemiesForLevel (g1\<lparr>world := Some w\<rparr>) r1
           in Game_reset Reset g2 r2)"

definition Game_queueGunBurst :: "real \<Rightarrow> real \<Rightarrow> Game \<Rightarrow> Game" where
  "Game_queueGunBurst cnt now g =
     (if \<not> running g then g
      else g\<lparr>gunBurstRemaining := min 25 (gunBurstRemaining g + max 1 (of_int \<lfloor>cnt\<rfloor>)),
             gunBurstNextMs := (if gunBurstNextMs g < now then now else gunBurstNextMs g)\<rparr>)"

text \<open>
  \<^verbatim>\<open>items.find((s) => !s.active)\<close> returns the first slot that is not active, and the caller
  then writes to that slot; \<open>firstIndex\<close> is the index of that slot, which is within the list.
\<close>

fun firstIndex :: "('a \<Rightarrow> bool) \<Rightarrow> 'a list \<Rightarrow> nat option" where
  "firstIndex P [] = None"
| "firstIndex P (x # xs) = (if P x then Some 0 else map_option Suc (firstIndex P xs))"

definition Game_fireMissile :: "Game \<Rightarrow> Game" where
  "Game_fireMissile g =
     (if \<not> running g then g
      else case firstIndex (\<lambda>m. \<not> missile_active (shot m)) (missiles g) of
             None \<Rightarrow> g
           | Some i \<Rightarrow>
               let sp = vec3 (vx (pos g)) (vy (pos g) - 15 / 100) (vz (pos g) + 11 / 10);
                   sl = missiles g ! i;
                   sl' = sl\<lparr>shot := MissileShot_spawn sp (missileSpawnVel g) MISSILE_TTL (shot sl),
                           missile_mesh_visible := True, trail_visible := True\<rparr>
               in g\<lparr>missileSpawnPos := sp, missiles := (missiles g)[i := sl']\<rparr>)"

definition Game_triggerFlip :: "FlipAxis \<Rightarrow> int \<Rightarrow> Game \<Rightarrow> Game" where
  "Game_triggerFlip a d g = g\<lparr>drone := map_option (Drone_triggerFlip a d) (drone g)\<rparr>"

text \<open>
  The closure \<^verbatim>\<open>spawnLaser\<close> of \<^verbatim>\<open>Game.frame\<close>. The frame has returned before it when
  \<^verbatim>\<open>this.lasers\<close> is \<^verbatim>\<open>null\<close>.
\<close>

definition spawnLaser :: "Game \<Rightarrow> bool \<times> Game" where
  "spawnLaser g =
     (case lasers g of
        None \<Rightarrow> (False, g)
      | Some ls \<Rightarrow>
          (case firstIndex (\<lambda>s. \<not> laser_active s) ls of
             None \<Rightarrow> (False, g)
           | Some i \<Rightarrow>
               let sp = vec3 (vx (pos g)) (vy (pos g) + 2 / 100) (vz (pos g) + 135 / 100)
               in (True, g\<lparr>laserSpawnPos := sp,
                           lasers := Some (ls[i := LaserShot_spawn sp (laserSpawnVel g) LASER_TTL (ls ! i)])\<rparr>)))"

text \<open>
  The part of \<^verbatim>\<open>Game.frame\<close> that handles fire requests (from \<^verbatim>\<open>if (input.fireMissile)\<close> to the
  end of the gun logic). The frame reaches it when the session is running and no collision
  has reset it earlier in the frame. \<open>now\<close> is the clock read by \<^verbatim>\<open>queueGunBurst\<close>, \<open>nowMs\<close>
  the frame's time stamp.
\<close>

definition Game_frameGuns :: "InputState \<Rightarrow> real \<Rightarrow> Game \<Rightarrow> Game" where
  "Game_frameGuns input nowMs g =
     (if gunBurstRemaining g > 0 \<and> nowMs \<ge> gunBurstNextMs g
      then (case spawnLaser g of
              (True, g') \<Rightarrow> g'\<lparr>gunBurstRemaining := gunBurstRemaining g' - 1,
                              gunBurstNextMs := gunBurstNextMs g' + GUN_BURST_INTERVAL_MS,
                              lastGunFireMs := nowMs\<rparr>
            | (False, g') \<Rightarrow> g'\<lparr>gunBurstRemaining := 0\<rparr>)
      else if fireGuns input \<and> nowMs - lastGunFireMs g \<ge> GUN_HOLD_INTERVAL_MS
      then (case spawnLaser g of
              (True, g') \<Rightarrow> g'\<lparr>lastGunFireMs := nowMs\<rparr>
            | (False, g') \<Rightarrow> g')
      else g)"

definition Game_frameOneShots :: "InputState \<Rightarrow> real \<Rightarrow> Game \<Rightarrow> Game" where
  "Game_frameOneShots input now g =
     (let g1 = (if fireMissile input then Game_fireMissile g else g);
          g2 = (case flip input of
                  Some f \<Rightarrow> Game_triggerFlip (axis f) (dir f) g1
                | None \<Rightarrow> g1);
          g3 = (if fireGunsBurst input then Game_queueGunBurst GUN_BURST_COUNT now g2 else g2)
      in g3)"

definition Game_frameFire :: "InputState \<Rightarrow> real \<Rightarrow> real \<Rightarrow> Game \<Rightarrow> Game" where
  "Game_frameFire input nowMs now g = Game_frameGuns input nowMs (Game_frameOneShots input now g)"



definition activeLasers :: "Game \<Rightarrow> nat" where
  "activeLasers g = (case lasers g of None \<Rightarrow> 0 | Some ls \<Rightarrow> length (filter laser_active ls))"







text \<open>The state after \<^verbatim>\<open>init()\<close>, and the constructor.\<close>

definition Game_init :: "bool \<Rightarrow> Game" where
  "Game_init ios =
     \<lparr>running = False, crashed = False, isIOS = ios, level = getLevelConfig (Finite 8),
      world = None, score = 1, speedBase = 0, speed = 0, pos = vec3 0 0 0,
      gunBurstRemaining = 0, gunBurstNextMs = 0, lastGunFireMs = 0,
      laserSpawnPos = vec3 0 0 0, laserSpawnVel = vec3 0 0 LASER_SPEED,
      missileSpawnPos = vec3 0 0 0, missileSpawnVel = vec3 0 0 MISSILE_SPEED,
      hasScene = True,
      drone = Some \<lparr>drone_position = vec3 0 0 0, drone_rotation = vec3 0 0 0, drone_flip = None,
                    thrusterIntensity = 2, glowOpacity = 65 / 100\<rparr>,
      enemies = [],
      lasers = Some (replicate MAX_LASERS LaserShot_new),
      missiles = replicate MAX_MISSILES
                   \<lparr>shot = MissileShot_new, missile_mesh_visible = False, trail_visible = False\<rparr>,
      explosions = replicate 14
                     \<lparr>exp_mesh = Object3D_new\<lparr>visible := False\<rparr>, age = 999, lifetime = 5 / 10,
                      startScale = 7 / 10\<rparr>,
      hitFlashes = 0\<rparr>"

definition Game_new :: "bool \<Rightarrow> jsnum \<Rightarrow> rng \<Rightarrow> Game \<times> rng" where
  "Game_new ios levelId r = Game_setLevel levelId (Game_init ios) r"

definition Enemy_wf :: "Enemy \<Rightarrow> bool" where
  "Enemy_wf e = (maxHp e \<ge> 1 \<and> maxHp e \<in> \<int> \<and> hp e \<in> \<int> \<and> (alive e \<or> \<not> visible (mesh e)))"

definition spike0 :: Enemy where
  "spike0 = Enemy_new 1 Spike (createEnemyMesh Spike) (enemyCfgs Spike)"

text \<open>A game after \<^verbatim>\<open>init()\<close>, running on level 8 at speed 3, for the examples below.\<close>

definition game0 :: Game where
  "game0 = (Game_init False)\<lparr>running := True, speed := 3, speedBase := 34 / 10\<rparr>"

text \<open>A game whose laser pool (two slots) and missile pool (one slot) are all active.\<close>

definition fullPool :: "LaserShot list" where
  "fullPool = [LaserShot_spawn (vec3 0 0 1) (vec3 0 0 LASER_SPEED) LASER_TTL LaserShot_new,
               LaserShot_spawn (vec3 0 0 5) (vec3 0 0 LASER_SPEED) LASER_TTL LaserShot_new]"

definition fullGame :: Game where
  "fullGame =
     game0\<lparr>lasers := Some fullPool,
           missiles := [\<lparr>shot = MissileShot_spawn (vec3 0 0 1) (vec3 0 0 MISSILE_SPEED) MISSILE_TTL
                                  MissileShot_new,
                         missile_mesh_visible = True, trail_visible = True\<rparr>],
           gunBurstRemaining := 3\<rparr>"

text \<open>An uncalibrated face tracker, and a router with a burst, a missile and a flip queued.\<close>

definition face0 :: FaceControls where
  "face0 = \<lparr>calibrated = False, strafeX = 0, strafeY = 0, face_boost = 0, mouthOpen = 0,
            fireBurst = False, fireHold = False\<rparr>"

definition router0 :: InputRouter where
  "router0 =
     InputRouter_queueFlip AxisZ 1 (InputRouter_queueMissile (InputRouter_queueGunBurst InputRouter_new))"






















section \<open>Properties\<close>

lemma LEVELS_length: "length LEVELS = 10"
  by (simp add: LEVELS_def)

lemma fallbackLevel_eq: "fallbackLevel = level8"
  by (simp add: fallbackLevel_def LEVELS_def DEFAULT_LEVEL_ID_def)

lemma fallbackLevel_in_LEVELS: "fallbackLevel \<in> set LEVELS"
  by (simp add: fallbackLevel_eq LEVELS_def)

lemma getLevelConfig_in_LEVELS: "getLevelConfig n \<in> set LEVELS"
proof (cases n)
  case (Finite v)
  show ?thesis
  proof (cases "List.find (\<lambda>l. level_id l = v) LEVELS")
    case None
    with Finite show ?thesis
      by (simp add: getLevelConfig_def isFinite_def fallbackLevel_in_LEVELS)
  next
    case (Some l)
    then have "l \<in> set LEVELS"
      by (auto simp: find_Some_iff)
    with Finite Some show ?thesis
      by (simp add: getLevelConfig_def isFinite_def)
  qed
qed (simp_all add: getLevelConfig_def isFinite_def fallbackLevel_in_LEVELS)

lemma getLevelConfig_no_match:
  assumes "\<forall>l \<in> set LEVELS. Finite (level_id l) \<noteq> n"
  shows "getLevelConfig n = fallbackLevel"
proof (cases n)
  case (Finite v)
  from assms Finite have "\<not> (\<exists>l. l \<in> set LEVELS \<and> level_id l = v)"
    by auto
  then have "List.find (\<lambda>l. level_id l = v) LEVELS = None"
    by (simp add: find_None_iff)
  with Finite show ?thesis
    by (simp add: getLevelConfig_def isFinite_def)
qed (simp_all add: getLevelConfig_def isFinite_def)

subsection \<open>Level lookup and level change\<close>


lemma arrayFromRng_length: "length (fst (arrayFromRng n f r)) = n"
proof (induction n arbitrary: r)
  case 0
  show ?case by simp
next
  case (Suc n)
  obtain y r1 where y: "f r = (y, r1)"
    by (cases "f r")
  obtain ys r2 where ys: "arrayFromRng n f r1 = (ys, r2)"
    by (cases "arrayFromRng n f r1")
  from Suc.IH [of r1] ys have "length ys = n"
    by simp
  with y ys show ?case
    by simp
qed

lemma Game_reset_level: "level (fst (Game_reset reason g r)) = level g"
  by (simp add: Game_reset_def Let_def split: prod.splits)

lemma Game_createEnemiesForLevel_level: "level (fst (Game_createEnemiesForLevel g r)) = level g"
  by (simp add: Game_createEnemiesForLevel_def Let_def split: option.splits prod.splits)

lemma Game_setLevel_level:
  "level (fst (Game_setLevel n g r)) = (if hasScene g then getLevelConfig n else level g)"
proof (cases "hasScene g")
  case False
  then show ?thesis by (simp add: Game_setLevel_def)
next
  case True
  obtain w r1 where w: "World_create (createWorld (isIOS g) (getLevelConfig n)) r = (w, r1)"
    by (cases "World_create (createWorld (isIOS g) (getLevelConfig n)) r")
  define g1 where "g1 = (Game_disposeEnemies (g\<lparr>level := getLevelConfig n, world := None\<rparr>))\<lparr>world := Some w\<rparr>"
  obtain g2 r2 where g2: "Game_createEnemiesForLevel g1 r1 = (g2, r2)"
    by (cases "Game_createEnemiesForLevel g1 r1")
  have "level g2 = level g1"
    using Game_createEnemiesForLevel_level [of g1 r1] g2 by simp
  moreover have "level g1 = getLevelConfig n"
    by (simp add: g1_def Game_disposeEnemies_def)
  moreover have "Game_setLevel n g r = Game_reset Reset g2 r2"
    using True w g2 by (simp add: Game_setLevel_def Let_def g1_def)
  ultimately show ?thesis
    using True by (simp add: Game_reset_level)
qed

text \<open>
  C10. \<^verbatim>\<open>getLevelConfig\<close> is total: for every number, NaN and the infinities included, it
  returns an entry of the table \<open>LEVELS\<close>, which has 10 entries; when no entry has the
  number as its id it returns the default level, whose id is 8. So \<^verbatim>\<open>Game.setLevel\<close> installs
  an entry of the table whatever number it is given, and a game keeps an entry of the table
  as its level from its construction on.
\<close>

theorem getLevelConfig_total:
  "getLevelConfig n \<in> set LEVELS
   \<and> length LEVELS = 10
   \<and> ((\<forall>l \<in> set LEVELS. Finite (level_id l) \<noteq> n) \<longrightarrow>
        getLevelConfig n = level8 \<and> level_id (getLevelConfig n) = 8)
   \<and> (hasScene g \<longrightarrow> level (fst (Game_setLevel n g r)) = getLevelConfig n)
   \<and> (level g \<in> set LEVELS \<longrightarrow> level (fst (Game_setLevel n g r)) \<in> set LEVELS)
   \<and> level (fst (Game_new ios n r)) \<in> set LEVELS"
proof -
  have a: "getLevelConfig n \<in> set LEVELS"
    by (rule getLevelConfig_in_LEVELS)
  have b: "(\<forall>l \<in> set LEVELS. Finite (level_id l) \<noteq> n) \<longrightarrow>
        getLevelConfig n = level8 \<and> level_id (getLevelConfig n) = 8"
    using getLevelConfig_no_match [of n] by (simp add: fallbackLevel_eq level8_def)
  have c: "level (fst (Game_new ios n r)) \<in> set LEVELS"
    by (simp add: Game_new_def Game_setLevel_level Game_init_def a)
  have d: "level_id level8 = 8"
    by (simp add: level8_def)
  show ?thesis
    using a b c d by (simp add: LEVELS_length Game_setLevel_level)
qed

theorem getLevelConfig_total_witness:
  "hasScene (Game_init False)
   \<and> level (Game_init False) \<in> set LEVELS
   \<and> getLevelConfig (Finite (5 / 2)) = level8
   \<and> level (fst (Game_setLevel (Finite (5 / 2)) (Game_init False) (sconst 0))) = level8"
proof -
  have h1: "\<forall>l \<in> set LEVELS. Finite (level_id l) \<noteq> Finite (5 / 2)"
    by (simp add: LEVELS_def level1_def level2_def level3_def level4_def level5_def
        level6_def level7_def level8_def level9_def level10_def)
  have h2: "hasScene (Game_init False)"
    by (simp add: Game_init_def)
  have h3: "level (Game_init False) \<in> set LEVELS"
    by (simp add: Game_init_def getLevelConfig_in_LEVELS)
  show ?thesis
    using h1 h2 h3 getLevelConfig_total [of "Finite (5 / 2)" "Game_init False" "sconst 0" False]
    by simp
qed

subsection \<open>Enemy\<close>

lemma max_one_of_int_Ints: "max 1 (of_int k :: real) \<in> \<int>"
  by (simp add: max_def)

lemma clamp_Ints: "v \<in> \<int> \<Longrightarrow> lo \<in> \<int> \<Longrightarrow> hi \<in> \<int> \<Longrightarrow> clamp v lo hi \<in> \<int>"
  by (simp add: clamp_def max_def min_def)

lemma clamp_lower: "lo \<le> clamp v lo hi"
  by (simp add: clamp_def)

lemma clamp_upper: "lo \<le> hi \<Longrightarrow> clamp v lo hi \<le> hi"
  by (simp add: clamp_def)

lemma Enemy_new_inv: "Enemy_inv (Enemy_new i k m cfg) \<and> Enemy_wf (Enemy_new i k m cfg)"
  by (simp add: Enemy_inv_def Enemy_wf_def Enemy_new_def max_one_of_int_Ints
      less_max_iff_disj le_max_iff_disj)

lemma Enemy_spawn_inv:
  assumes "Enemy_wf e"
  shows "Enemy_inv (fst (Enemy_spawn b y e r)) \<and> Enemy_wf (fst (Enemy_spawn b y e r))"
  using assms
  by (simp add: Enemy_inv_def Enemy_wf_def Enemy_spawn_def split: prod.splits)

lemma Enemy_update_inv:
  assumes "Enemy_inv e" and "Enemy_wf e"
  shows "Enemy_inv (Enemy_update dt ws pp t e) \<and> Enemy_wf (Enemy_update dt ws pp t e)"
  using assms
  by (auto simp: Enemy_inv_def Enemy_wf_def Enemy_update_def Let_def)

lemma Enemy_takeDamage_hp:
  assumes "alive e"
  shows "hp (Enemy_takeDamage a e) = clamp (hp e - max 1 (of_int \<lfloor>a\<rfloor>)) 0 (maxHp e)"
    and "maxHp (Enemy_takeDamage a e) = maxHp e"
    and "alive (Enemy_takeDamage a e) = (hp (Enemy_takeDamage a e) > 0)"
    and "alive (Enemy_takeDamage a e) \<or> \<not> visible (mesh (Enemy_takeDamage a e))"
  using assms by (simp_all add: Enemy_takeDamage_def Let_def)

lemma Enemy_takeDamage_dead: "\<not> alive e \<Longrightarrow> Enemy_takeDamage a e = e"
  by (simp add: Enemy_takeDamage_def)

lemma Enemy_takeDamage_inv:
  assumes "Enemy_inv e" and "Enemy_wf e"
  shows "Enemy_inv (Enemy_takeDamage a e) \<and> Enemy_wf (Enemy_takeDamage a e)"
proof (cases "alive e")
  case False
  with assms show ?thesis
    by (simp add: Enemy_takeDamage_dead)
next
  case True
  let ?e = "Enemy_takeDamage a e"
  from assms have m: "maxHp e \<ge> 1" "maxHp e \<in> \<int>" "hp e \<in> \<int>"
    by (simp_all add: Enemy_wf_def)
  have h: "hp ?e = clamp (hp e - max 1 (of_int \<lfloor>a\<rfloor>)) 0 (maxHp e)"
    by (rule Enemy_takeDamage_hp(1) [OF True])
  have lo: "0 \<le> hp ?e"
    unfolding h by (rule clamp_lower)
  have hi: "hp ?e \<le> maxHp ?e"
    unfolding h Enemy_takeDamage_hp(2) [OF True] using m(1) by (intro clamp_upper) simp
  have "hp e - max 1 (of_int \<lfloor>a\<rfloor>) \<in> \<int>"
    using m(3) by (intro Ints_diff max_one_of_int_Ints)
  then have int: "hp ?e \<in> \<int>"
    unfolding h using m(2) by (intro clamp_Ints) simp_all
  show ?thesis
    using lo hi int m Enemy_takeDamage_hp(2,3,4) [OF True, of a]
    by (simp add: Enemy_inv_def Enemy_wf_def)
qed

lemma reachableEnemy_inv: "reachableEnemy e \<Longrightarrow> Enemy_inv e \<and> Enemy_wf e"
proof (induction rule: reachableEnemy.induct)
  case (constructed i k m cfg)
  show ?case by (rule Enemy_new_inv)
next
  case (spawned e bounds playerY r)
  then show ?case by (simp add: Enemy_spawn_inv)
next
  case (updated e dt worldSpeed playerPos timeMs)
  then show ?case by (simp add: Enemy_update_inv)
next
  case (damaged e amount)
  then show ?case by (simp add: Enemy_takeDamage_inv)
qed

lemma spike0_simps:
  "alive spike0" "hp spike0 = 2" "maxHp spike0 = 2"
  by (simp_all add: spike0_def Enemy_new_def enemyCfgs_def)

text \<open>
  C5, as the claim states it, fails: the claim has \<^verbatim>\<open>takeDamage(amount)\<close> subtract
  \<open>floor(amount)\<close>, which for the amount 1/2 is 0 and would leave a spike with its 2 hit
  points; the code subtracts \<^verbatim>\<open>Math.max(1, Math.floor(amount))\<close> and leaves it 1.
\<close>

theorem Enemy_takeDamage_floor_counterexample:
  "alive spike0
   \<and> hp (Enemy_takeDamage (1 / 2) spike0) = 1
   \<and> clamp (hp spike0 - of_int \<lfloor>1 / 2 :: real\<rfloor>) 0 (maxHp spike0) = 2"
  by (simp add: Enemy_takeDamage_hp(1) spike0_simps clamp_def)

text \<open>
  C5, amended. For every living enemy and every amount, \<^verbatim>\<open>takeDamage(amount)\<close> subtracts
  \<open>max(1, floor(amount))\<close> from the hit points and clamps the result to \<open>[0, maxHp]\<close>; the
  enemy is alive afterwards exactly when the new hit points are not 0. On a dead enemy
  \<^verbatim>\<open>takeDamage\<close> changes nothing.
\<close>

theorem Enemy_takeDamage_spec:
  "(alive e \<longrightarrow>
      hp (Enemy_takeDamage a e) = clamp (hp e - max 1 (of_int \<lfloor>a\<rfloor>)) 0 (maxHp e)
      \<and> 0 \<le> hp (Enemy_takeDamage a e)
      \<and> (0 \<le> maxHp e \<longrightarrow> hp (Enemy_takeDamage a e) \<le> maxHp e)
      \<and> alive (Enemy_takeDamage a e) = (hp (Enemy_takeDamage a e) \<noteq> 0))
   \<and> (\<not> alive e \<longrightarrow> Enemy_takeDamage a e = e)"
proof -
  have "0 \<le> hp (Enemy_takeDamage a e)" if "alive e"
    unfolding Enemy_takeDamage_hp(1) [OF that] by (rule clamp_lower)
  moreover have "hp (Enemy_takeDamage a e) \<le> maxHp e" if "alive e" "0 \<le> maxHp e"
    unfolding Enemy_takeDamage_hp(1) [OF that(1)] using that(2) by (rule clamp_upper)
  ultimately show ?thesis
    using Enemy_takeDamage_hp(1,3) [of e a] Enemy_takeDamage_dead [of e a]
    by (cases "alive e") auto
qed

theorem Enemy_takeDamage_spec_witness:
  "alive spike0
   \<and> hp (Enemy_takeDamage (1 / 2) spike0) = 1
   \<and> alive (Enemy_takeDamage (1 / 2) spike0)
   \<and> \<not> alive (Enemy_takeDamage 999 spike0)
   \<and> Enemy_takeDamage 1 (Enemy_takeDamage 999 spike0) = Enemy_takeDamage 999 spike0"
proof -
  have d: "\<not> alive (Enemy_takeDamage 999 spike0)"
    using Enemy_takeDamage_spec [of spike0 999] by (simp add: spike0_simps clamp_def)
  show ?thesis
    using d Enemy_takeDamage_spec [of spike0 "1 / 2"]
      Enemy_takeDamage_spec [of "Enemy_takeDamage 999 spike0" 1]
    by (simp add: spike0_simps clamp_def)
qed

text \<open>
  C6. Every enemy that the constructor, \<^verbatim>\<open>spawn\<close>, \<^verbatim>\<open>update\<close> and \<^verbatim>\<open>takeDamage\<close> can produce has
  \<open>0 \<le> hp \<le> maxHp\<close> and is alive exactly when \<open>hp > 0\<close>. A dead one is inert: its mesh is
  hidden, and \<^verbatim>\<open>update\<close> and \<^verbatim>\<open>takeDamage\<close> leave it as it is, until \<^verbatim>\<open>spawn\<close> revives it with
  full hit points.
\<close>

theorem Enemy_invariant:
  assumes "reachableEnemy e"
  shows "0 \<le> hp e \<and> hp e \<le> maxHp e \<and> alive e = (hp e > 0)
         \<and> (\<not> alive e \<longrightarrow>
              \<not> visible (mesh e)
              \<and> Enemy_update dt ws pp t e = e
              \<and> Enemy_takeDamage a e = e
              \<and> alive (fst (Enemy_spawn b y e r))
              \<and> hp (fst (Enemy_spawn b y e r)) = maxHp e)"
proof -
  from assms have i: "Enemy_inv e" and w: "Enemy_wf e"
    by (simp_all add: reachableEnemy_inv)
  have s: "alive (fst (Enemy_spawn b y e r)) \<and> hp (fst (Enemy_spawn b y e r)) = maxHp e"
    by (simp add: Enemy_spawn_def split: prod.splits)
  show ?thesis
    using i w s by (auto simp: Enemy_inv_def Enemy_wf_def Enemy_update_def Enemy_takeDamage_dead)
qed

theorem Enemy_invariant_witness:
  "reachableEnemy (Enemy_takeDamage 999 spike0)
   \<and> hp (Enemy_takeDamage 999 spike0) = 0
   \<and> \<not> alive (Enemy_takeDamage 999 spike0)
   \<and> \<not> visible (mesh (Enemy_takeDamage 999 spike0))"
proof -
  have r: "reachableEnemy (Enemy_takeDamage 999 spike0)"
    unfolding spike0_def by (intro reachableEnemy.damaged reachableEnemy.constructed)
  have h: "hp (Enemy_takeDamage 999 spike0) = 0"
    by (simp add: Enemy_takeDamage_hp(1) spike0_simps clamp_def)
  show ?thesis
    using r h Enemy_invariant [OF r] by simp
qed

text \<open>
  C7. Round trip: for every enemy, \<^verbatim>\<open>spawn\<close> followed by \<^verbatim>\<open>takeDamage(maxHp)\<close> leaves it dead,
  and a further \<^verbatim>\<open>spawn\<close> leaves it alive with \<open>hp = maxHp\<close>, whatever the bounds, the player's
  height and the random numbers drawn.
\<close>

theorem Enemy_spawn_kill_respawn:
  assumes "reachableEnemy e"
  shows "\<not> alive (Enemy_takeDamage (maxHp e) (fst (Enemy_spawn b y e r)))
         \<and> alive (fst (Enemy_spawn b' y' (Enemy_takeDamage (maxHp e) (fst (Enemy_spawn b y e r))) r'))
         \<and> hp (fst (Enemy_spawn b' y' (Enemy_takeDamage (maxHp e) (fst (Enemy_spawn b y e r))) r'))
             = maxHp e
         \<and> maxHp (fst (Enemy_spawn b' y' (Enemy_takeDamage (maxHp e) (fst (Enemy_spawn b y e r))) r'))
             = maxHp e"
proof -
  let ?e1 = "fst (Enemy_spawn b y e r)"
  let ?e2 = "Enemy_takeDamage (maxHp e) ?e1"
  from assms have w: "maxHp e \<ge> 1" "maxHp e \<in> \<int>"
    using reachableEnemy_inv [of e] by (simp_all add: Enemy_wf_def)
  then obtain k where k: "maxHp e = of_int k"
    by (auto elim: Ints_cases)
  with w(1) have k1: "1 \<le> k"
    by simp
  have e1: "alive ?e1" "hp ?e1 = maxHp e" "maxHp ?e1 = maxHp e"
    by (simp_all add: Enemy_spawn_def split: prod.splits)
  have mx: "max 1 (of_int \<lfloor>maxHp e\<rfloor>) = maxHp e"
    unfolding k using k1 by simp
  have "hp ?e2 = clamp (hp ?e1 - max 1 (of_int \<lfloor>maxHp e\<rfloor>)) 0 (maxHp ?e1)"
    by (rule Enemy_takeDamage_hp(1) [OF e1(1)])
  also have "\<dots> = clamp 0 0 (maxHp e)"
    by (simp only: mx e1(2,3) diff_self)
  also have "\<dots> = 0"
    using w(1) by (simp add: clamp_def)
  finally have "hp ?e2 = 0" .
  then have dead: "\<not> alive ?e2"
    using Enemy_takeDamage_hp(3) [OF e1(1), of "maxHp e"] by simp
  have m2: "maxHp ?e2 = maxHp e"
    using Enemy_takeDamage_hp(2) [OF e1(1), of "maxHp e"] e1(3) by simp
  show ?thesis
    using dead m2 by (simp add: Enemy_spawn_def split: prod.splits)
qed

theorem Enemy_spawn_kill_respawn_witness:
  "reachableEnemy spike0
   \<and> \<not> alive (Enemy_takeDamage 2 (fst (Enemy_spawn EP_enemySpawnBounds 0 spike0 (sconst 0))))
   \<and> hp (fst (Enemy_spawn OW_enemySpawnBounds 1
            (Enemy_takeDamage 2 (fst (Enemy_spawn EP_enemySpawnBounds 0 spike0 (sconst 0))))
            (sconst (1 / 2)))) = 2"
proof -
  have r: "reachableEnemy spike0"
    unfolding spike0_def by (rule reachableEnemy.constructed)
  show ?thesis
    using r Enemy_spawn_kill_respawn [OF r, of EP_enemySpawnBounds 0 "sconst 0"
        OW_enemySpawnBounds 1 "sconst (1 / 2)"]
    by (simp add: spike0_simps)
qed

subsection \<open>Forward speed\<close>

lemma MathUtils_lerp_bounds:
  assumes "0 \<le> t" and "t \<le> 1" and "lo \<le> x" and "x \<le> hi" and "lo \<le> y" and "y \<le> hi"
  shows "lo \<le> MathUtils_lerp x y t \<and> MathUtils_lerp x y t \<le> hi"
proof -
  have a: "(1 - t) * lo \<le> (1 - t) * x" "(1 - t) * x \<le> (1 - t) * hi"
    using assms by (simp_all add: mult_left_mono)
  have b: "t * lo \<le> t * y" "t * y \<le> t * hi"
    using assms by (simp_all add: mult_left_mono)
  have "(1 - t) * lo + t * lo = lo" "(1 - t) * hi + t * hi = hi"
    by (simp_all add: algebra_simps)
  with a b show ?thesis
    unfolding MathUtils_lerp_def by linarith
qed

lemma one_minus_exp_bounds:
  assumes "0 \<le> c" and "0 \<le> (dt :: real)"
  shows "0 \<le> 1 - exp (- c * dt) \<and> 1 - exp (- c * dt) \<le> 1"
proof -
  have "- c * dt \<le> 0"
    using assms by simp
  then have "exp (- c * dt) \<le> 1"
    by (simp only: exp_le_one_iff)
  moreover have "0 \<le> exp (- c * dt)"
    by simp
  ultimately show ?thesis
    by simp
qed

lemma Game_updateSpeed_bounds:
  assumes "0 \<le> dt"
    and "0 \<le> speed g"
    and "speed g \<le> max (max 0 (baseSpeed (level g))) (maxSpeed (level g))"
  shows "0 \<le> speed (Game_updateSpeed dt b st g)
         \<and> speed (Game_updateSpeed dt b st g) \<le> max (max 0 (baseSpeed (level g))) (maxSpeed (level g))"
proof -
  let ?M = "max (max 0 (baseSpeed (level g))) (maxSpeed (level g))"
  have M: "0 \<le> ?M"
    by simp
  have tgt: "0 \<le> clamp v 0 ?M \<and> clamp v 0 ?M \<le> ?M" for v
    using clamp_lower [of 0 v ?M] clamp_upper [OF M, of v] by simp
  have t8: "0 \<le> 1 - exp (- 8 * dt) \<and> 1 - exp (- 8 * dt) \<le> 1"
    using one_minus_exp_bounds [of 8 dt] assms(1) by simp
  have t10: "0 \<le> 1 - exp (- 10 * dt) \<and> 1 - exp (- 10 * dt) \<le> 1"
    using one_minus_exp_bounds [of 10 dt] assms(1) by simp
  have l8: "0 \<le> MathUtils_lerp (speed g) (clamp v 0 ?M) (1 - exp (- 8 * dt))
            \<and> MathUtils_lerp (speed g) (clamp v 0 ?M) (1 - exp (- 8 * dt)) \<le> ?M" for v
    using t8 assms(2,3) tgt [of v] by (intro MathUtils_lerp_bounds) simp_all
  have l10: "0 \<le> MathUtils_lerp (speed g) (clamp v 0 ?M) (1 - exp (- 10 * dt))
            \<and> MathUtils_lerp (speed g) (clamp v 0 ?M) (1 - exp (- 10 * dt)) \<le> ?M" for v
    using t10 assms(2,3) tgt [of v] by (intro MathUtils_lerp_bounds) simp_all
  show ?thesis
  proof (cases st)
    case True
    then show ?thesis
      using M by (simp add: Game_updateSpeed_def Let_def)
  next
    case False
    show ?thesis
    proof (cases "autoForward (level g)")
      case True
      with \<open>\<not> st\<close> show ?thesis
        using l8 by (simp add: Game_updateSpeed_def Let_def)
    next
      case False
      with \<open>\<not> st\<close> show ?thesis
        using l10 by (simp add: Game_updateSpeed_def Let_def)
    qed
  qed
qed

lemma LEVELS_speeds: "l \<in> set LEVELS \<Longrightarrow> 0 \<le> baseSpeed l \<and> baseSpeed l \<le> maxSpeed l"
  by (auto simp: LEVELS_def level1_def level2_def level3_def level4_def level5_def
      level6_def level7_def level8_def level9_def level10_def)

lemma getLevelConfig_8: "getLevelConfig (Finite 8) = level8"
  by (simp add: getLevelConfig_def isFinite_def LEVELS_def level1_def level2_def level3_def
      level4_def level5_def level6_def level7_def level8_def)

lemma game0_level: "level game0 = level8"
  by (simp add: game0_def Game_init_def getLevelConfig_8)

text \<open>
  C1. For the active level, an entry of the level table, for every \<open>dt \<ge> 0\<close>, every boost and
  every stop flag: if the forward speed is in \<open>[0, maxSpeed]\<close> before \<^verbatim>\<open>updateSpeed\<close>, it is in
  \<open>[0, maxSpeed]\<close> after it. \<^verbatim>\<open>updateSpeed\<close> leaves the level as it is.
\<close>

theorem Game_updateSpeed_in_range:
  assumes "level g \<in> set LEVELS"
    and "0 \<le> dt"
    and "0 \<le> speed g"
    and "speed g \<le> maxSpeed (level g)"
  shows "0 \<le> speed (Game_updateSpeed dt b st g)
         \<and> speed (Game_updateSpeed dt b st g) \<le> maxSpeed (level g)
         \<and> level (Game_updateSpeed dt b st g) = level g"
proof -
  from LEVELS_speeds [OF assms(1)]
  have M: "max (max 0 (baseSpeed (level g))) (maxSpeed (level g)) = maxSpeed (level g)"
    by simp
  have "level (Game_updateSpeed dt b st g) = level g"
    by (simp add: Game_updateSpeed_def Let_def)
  then show ?thesis
    using Game_updateSpeed_bounds [of dt g b st] assms(2,3,4) unfolding M by simp
qed

theorem Game_updateSpeed_in_range_witness:
  "level game0 \<in> set LEVELS
   \<and> speed game0 = 3
   \<and> maxSpeed (level game0) = 14
   \<and> 0 \<le> speed (Game_updateSpeed (1 / 20) 1 False game0)
   \<and> speed (Game_updateSpeed (1 / 20) 1 False game0) \<le> 14"
proof -
  have l: "level game0 \<in> set LEVELS"
    by (simp add: game0_level LEVELS_def)
  have s: "speed game0 = 3"
    by (simp add: game0_def)
  have m: "maxSpeed (level game0) = 14"
    by (simp add: game0_level level8_def)
  show ?thesis
    using l s m Game_updateSpeed_in_range [OF l, of "1 / 20" 1 False]
    by simp
qed

subsection \<open>Full pools\<close>

lemma firstIndex_None: "firstIndex P xs = None \<longleftrightarrow> (\<forall>x \<in> set xs. \<not> P x)"
  by (induction xs) auto


lemma spawnLaser_full:
  assumes "lasers g = Some ls" and "\<forall>l \<in> set ls. laser_active l"
  shows "spawnLaser g = (False, g)"
proof -
  from assms(2) have "firstIndex (\<lambda>s. \<not> laser_active s) ls = None"
    by (simp add: firstIndex_None)
  with assms(1) show ?thesis
    by (simp add: spawnLaser_def)
qed

lemma Game_fireMissile_full:
  assumes "\<forall>m \<in> set (missiles g). missile_active (shot m)"
  shows "Game_fireMissile g = g"
proof -
  from assms have "firstIndex (\<lambda>m. \<not> missile_active (shot m)) (missiles g) = None"
    by (simp add: firstIndex_None)
  then show ?thesis
    by (simp add: Game_fireMissile_def)
qed

lemma Game_frameOneShots_lasers: "lasers (Game_frameOneShots input now g) = lasers g"
  by (simp add: Game_frameOneShots_def Game_fireMissile_def Game_triggerFlip_def
      Game_queueGunBurst_def Let_def split: option.splits)

lemma Game_frameGuns_missiles: "missiles (Game_frameGuns input nowMs g) = missiles g"
  by (simp add: Game_frameGuns_def spawnLaser_def Let_def split: option.splits)

lemma Game_frameGuns_full:
  assumes "lasers g = Some ls" and "\<forall>l \<in> set ls. laser_active l"
  shows "lasers (Game_frameGuns input nowMs g) = Some ls"
  using assms by (simp add: Game_frameGuns_def spawnLaser_full)

lemma Game_frameOneShots_missiles_full:
  assumes "\<forall>m \<in> set (missiles g). missile_active (shot m)"
  shows "missiles (Game_frameOneShots input now g) = missiles g"
  using assms
  by (simp add: Game_frameOneShots_def Game_fireMissile_full Game_triggerFlip_def
      Game_queueGunBurst_def Let_def split: option.splits)

text \<open>
  C8. When every slot of the laser pool is active, \<^verbatim>\<open>spawnLaser\<close> returns \<open>false\<close> and changes
  nothing, so the number of active slots stays at the pool's capacity; when every slot of the
  missile pool is active, \<^verbatim>\<open>fireMissile\<close> changes nothing. The fire logic of a frame then leaves
  the full pool as it is, slot by slot. No path of either function throws.
\<close>

theorem full_pool_drops_shot:
  "(lasers g = Some ls \<and> (\<forall>l \<in> set ls. laser_active l) \<longrightarrow>
      spawnLaser g = (False, g)
      \<and> activeLasers (snd (spawnLaser g)) = length ls
      \<and> lasers (Game_frameFire input nowMs now g) = Some ls)
   \<and> ((\<forall>m \<in> set (missiles g). missile_active (shot m)) \<longrightarrow>
      Game_fireMissile g = g
      \<and> missiles (Game_frameFire input nowMs now g) = missiles g)"
proof -
  have "activeLasers g = length ls" if "lasers g = Some ls" "\<forall>l \<in> set ls. laser_active l"
    using that by (simp add: activeLasers_def)
  moreover have "lasers (Game_frameFire input nowMs now g) = Some ls"
    if "lasers g = Some ls" "\<forall>l \<in> set ls. laser_active l"
    unfolding Game_frameFire_def
    using that by (intro Game_frameGuns_full) (simp_all add: Game_frameOneShots_lasers)
  moreover have "missiles (Game_frameFire input nowMs now g) = missiles g"
    if "\<forall>m \<in> set (missiles g). missile_active (shot m)"
    unfolding Game_frameFire_def
    using that by (simp add: Game_frameGuns_missiles Game_frameOneShots_missiles_full)
  ultimately show ?thesis
    by (auto simp: spawnLaser_full Game_fireMissile_full)
qed

theorem full_pool_drops_shot_witness:
  "running fullGame
   \<and> lasers fullGame = Some fullPool
   \<and> spawnLaser fullGame = (False, fullGame)
   \<and> activeLasers (snd (spawnLaser fullGame)) = 2
   \<and> Game_fireMissile fullGame = fullGame
   \<and> lasers (Game_frameFire createDefaultInputState 100 100 fullGame) = Some fullPool"
proof -
  have l: "lasers fullGame = Some fullPool"
    by (simp add: fullGame_def)
  have la: "\<forall>l \<in> set fullPool. laser_active l"
    by (simp add: fullPool_def LaserShot_spawn_def)
  have m: "\<forall>m \<in> set (missiles fullGame). missile_active (shot m)"
    by (simp add: fullGame_def MissileShot_spawn_def)
  have r: "running fullGame"
    by (simp add: fullGame_def game0_def)
  have n: "length fullPool = 2"
    by (simp add: fullPool_def)
  note t = full_pool_drops_shot [of fullGame fullPool createDefaultInputState 100 100]
  from t l la have s: "spawnLaser fullGame = (False, fullGame)"
    by blast
  from t l la have a: "activeLasers (snd (spawnLaser fullGame)) = 2"
    unfolding n by blast
  from t l la have f: "lasers (Game_frameFire createDefaultInputState 100 100 fullGame) = Some fullPool"
    by blast
  from t m have u: "Game_fireMissile fullGame = fullGame"
    by blast
  show ?thesis
    using l r s a f u by blast
qed

subsection \<open>One-shot input\<close>

lemma InputRouter_update_queues:
  "\<not> queuedGunBurst (InputRouter_update t f r)"
  "\<not> queuedMissile (InputRouter_update t f r)"
  "queuedFlip (InputRouter_update t f r) = None"
  by (simp_all add: InputRouter_update_def Let_def)

lemma InputRouter_update_state:
  "fireGunsBurst (state (InputRouter_update t f r)) = ((calibrated f \<and> fireBurst f) \<or> queuedGunBurst r)"
  "fireMissile (state (InputRouter_update t f r)) = queuedMissile r"
  "flip (state (InputRouter_update t f r)) = queuedFlip r"
  by (simp_all add: InputRouter_update_def Let_def)

lemma InputRouter_handleVoiceCommand_queues:
  assumes "c \<noteq> VFireGuns" and "c \<noteq> VFireMissile" and "\<forall>a d. c \<noteq> VFlip a d"
  shows "queuedGunBurst (InputRouter_handleVoiceCommand c now r) = queuedGunBurst r
         \<and> queuedMissile (InputRouter_handleVoiceCommand c now r) = queuedMissile r
         \<and> queuedFlip (InputRouter_handleVoiceCommand c now r) = queuedFlip r"
  using assms
  by (cases c) (simp_all add: InputRouter_toggleStop_def InputRouter_nudge_def Let_def)

lemma sameQueues_ifThen:
  assumes "c \<Longrightarrow> sameQueues (f x) r" and "\<not> c \<Longrightarrow> sameQueues x r"
  shows "sameQueues (ifThen c f x) r"
  using assms by (simp add: ifThen_def)

lemma sameQueues_setKeys: "sameQueues x r \<Longrightarrow> sameQueues (setKeys f x) r"
  by (simp add: sameQueues_def setKeys_def)

lemma sameQueues_keys:
  assumes "sameQueues x r"
  shows "sameQueues (ifThen c (setKeys f) x) r"
  using assms by (intro sameQueues_ifThen sameQueues_setKeys)

lemma InputRouter_onKeyDown_queues:
  assumes "targetIgnored e \<or> (key e \<noteq> '' '' \<and> toLowerCase (key e) \<noteq> ''f'' \<and> toLowerCase (key e) \<noteq> ''m'')"
  shows "sameQueues (InputRouter_onKeyDown e r) r"
proof (cases "targetIgnored e")
  case True
  then show ?thesis
    by (simp add: InputRouter_onKeyDown_def sameQueues_def)
next
  case False
  with assms have k: "key e \<noteq> '' ''" "toLowerCase (key e) \<noteq> ''f''" "toLowerCase (key e) \<noteq> ''m''"
    by simp_all
  have r: "sameQueues r r"
    by (simp add: sameQueues_def)
  show ?thesis
    unfolding InputRouter_onKeyDown_def Let_def
    using False k
    by (simp only: if_False ifThen_def [of False] sameQueues_keys r)
qed

lemma InputRouter_onKeyUp_queues: "sameQueues (InputRouter_onKeyUp e r) r"
proof (cases "targetIgnored e")
  case True
  then show ?thesis
    by (simp add: InputRouter_onKeyUp_def sameQueues_def)
next
  case False
  have r: "sameQueues r r"
    by (simp add: sameQueues_def)
  show ?thesis
    unfolding InputRouter_onKeyUp_def Let_def
    using False by (simp only: if_False sameQueues_keys r)
qed

lemma applyCall_queues:
  assumes "\<not> isQueueRequest c"
  shows "queuedGunBurst (applyCall c r) = queuedGunBurst r
         \<and> queuedMissile (applyCall c r) = queuedMissile r
         \<and> queuedFlip (applyCall c r) = queuedFlip r"
proof (cases c)
  case (HandleVoiceCommand v now)
  with assms have "v \<noteq> VFireGuns" "v \<noteq> VFireMissile" "\<forall>a d. v \<noteq> VFlip a d"
    by auto
  with HandleVoiceCommand show ?thesis
    by (simp add: InputRouter_handleVoiceCommand_queues)
next
  case (KeyDown e)
  with assms show ?thesis
    using InputRouter_onKeyDown_queues [of e r] by (simp add: sameQueues_def)
next
  case (KeyUp e)
  then show ?thesis
    using InputRouter_onKeyUp_queues [of e r] by (simp add: sameQueues_def)
qed (use assms in \<open>simp_all add: InputRouter_setHasCamera_def InputRouter_setStopHeld_def
      InputRouter_toggleStop_def InputRouter_nudge_def Let_def\<close>)

lemma applyCalls_queues:
  assumes "\<forall>c \<in> set cs. \<not> isQueueRequest c"
  shows "queuedGunBurst (applyCalls cs r) = queuedGunBurst r
         \<and> queuedMissile (applyCalls cs r) = queuedMissile r
         \<and> queuedFlip (applyCalls cs r) = queuedFlip r"
  using assms
proof (induction cs arbitrary: r)
  case Nil
  show ?case by simp
next
  case (Cons c cs)
  then show ?case
    using applyCall_queues [of c r] by simp
qed

lemma Game_frameOneShots_idle:
  assumes "\<not> fireMissile input" and "flip input = None" and "\<not> fireGunsBurst input"
  shows "Game_frameOneShots input now g = g"
  using assms by (simp add: Game_frameOneShots_def)

text \<open>
  C9. A router update publishes the queued one-shot requests (burst, missile, flip) in the
  input state and empties the queues. The next update, after any calls that are not queue
  requests and with no burst edge from the face tracker, publishes \<open>fireGunsBurst = false\<close>,
  \<open>fireMissile = false\<close> and \<open>flip = null\<close>, and the frame that reads this state fires no
  missile, starts no flip and queues no burst: a queued request is read as true in one
  frame only.
\<close>

theorem one_shot_published_once:
  assumes "\<forall>c \<in> set cs. \<not> isQueueRequest c"
    and "\<not> (calibrated f2 \<and> fireBurst f2)"
  shows "fireMissile (state (InputRouter_update t1 f1 r)) = queuedMissile r
         \<and> flip (state (InputRouter_update t1 f1 r)) = queuedFlip r
         \<and> fireGunsBurst (state (InputRouter_update t1 f1 r))
             = ((calibrated f1 \<and> fireBurst f1) \<or> queuedGunBurst r)
         \<and> \<not> fireGunsBurst (state (InputRouter_update t2 f2 (applyCalls cs (InputRouter_update t1 f1 r))))
         \<and> \<not> fireMissile (state (InputRouter_update t2 f2 (applyCalls cs (InputRouter_update t1 f1 r))))
         \<and> flip (state (InputRouter_update t2 f2 (applyCalls cs (InputRouter_update t1 f1 r)))) = None
         \<and> Game_frameOneShots
             (state (InputRouter_update t2 f2 (applyCalls cs (InputRouter_update t1 f1 r)))) now g = g"
proof -
  let ?r1 = "InputRouter_update t1 f1 r"
  let ?r2 = "InputRouter_update t2 f2 (applyCalls cs ?r1)"
  have q: "\<not> queuedGunBurst (applyCalls cs ?r1)" "\<not> queuedMissile (applyCalls cs ?r1)"
    "queuedFlip (applyCalls cs ?r1) = None"
    using applyCalls_queues [OF assms(1), of ?r1] by (simp_all add: InputRouter_update_queues)
  have s2: "\<not> fireGunsBurst (state ?r2)" "\<not> fireMissile (state ?r2)" "flip (state ?r2) = None"
    using q assms(2) by (simp_all add: InputRouter_update_state)
  from s2 have "Game_frameOneShots (state ?r2) now g = g"
    by (intro Game_frameOneShots_idle)
  with s2 show ?thesis
    by (simp add: InputRouter_update_state)
qed

theorem one_shot_published_once_witness:
  "fireMissile (state (InputRouter_update 16 face0 router0))
   \<and> fireGunsBurst (state (InputRouter_update 16 face0 router0))
   \<and> flip (state (InputRouter_update 16 face0 router0)) = Some \<lparr>axis = AxisZ, dir = 1\<rparr>
   \<and> \<not> fireMissile (state (InputRouter_update 32 face0
          (applyCalls [SetStopHeld True, Nudge 1 0 (Finite 700) 20] (InputRouter_update 16 face0 router0))))
   \<and> \<not> fireGunsBurst (state (InputRouter_update 32 face0
          (applyCalls [SetStopHeld True, Nudge 1 0 (Finite 700) 20] (InputRouter_update 16 face0 router0))))
   \<and> flip (state (InputRouter_update 32 face0
          (applyCalls [SetStopHeld True, Nudge 1 0 (Finite 700) 20] (InputRouter_update 16 face0 router0))))
       = None"
proof -
  have c: "\<forall>c \<in> set [SetStopHeld True, Nudge 1 0 (Finite 700) 20]. \<not> isQueueRequest c"
    by simp
  have f: "\<not> (calibrated face0 \<and> fireBurst face0)"
    by (simp add: face0_def)
  have q: "queuedMissile router0" "queuedGunBurst router0"
    "queuedFlip router0 = Some \<lparr>axis = AxisZ, dir = 1\<rparr>"
    by (simp_all add: router0_def InputRouter_queueFlip_def InputRouter_queueMissile_def
        InputRouter_queueGunBurst_def)
  show ?thesis
    using q one_shot_published_once [OF c f, of 16 face0 router0 32]
    by simp
qed

subsection \<open>Reset\<close>













subsection \<open>Constant random streams\<close>













subsection \<open>The example game on level 1\<close>









subsection \<open>Missile homing\<close>








lemma vec3_eq_iff: "vec3 a b c = vec3 a' b' c' \<longleftrightarrow> a = a' \<and> b = b' \<and> c = c'"
  by (simp add: vec3_def)










subsection \<open>Gun bursts\<close>

































end
